theory Spec2Isabelle
  imports Complex_Main "HOL-Library.Char_ord" "HOL-Library.List_Lexorder"
begin

section \<open>Data model\<close>

text \<open>
  One value of the \<open>TotalCharges\<close> column. \<open>pd.read_csv\<close> delivers the column as text
  when some row holds a non-numeric placeholder (\<open>Str\<close>), as a float otherwise
  (\<open>Num\<close>), and a missing value as NaN. Charges are modelled as exact reals, and
  their sums and means as exact; every concrete charge used below is exactly
  representable in binary floating point. The ratios of counts are computed in
  \<open>float64\<close> arithmetic, as the code computes them (section Rounding and division).
\<close>

datatype cell = Str string | Num real | NaN

text \<open>One row of the data frame / of the table \<open>telecom_customers\<close>, with the columns
  that the segmentation, aggregation and revenue code reads.\<close>

record customer =
  customerID :: string
  SeniorCitizen :: int
  Partner :: string
  Dependents :: string
  tenure :: int
  Contract :: string
  InternetService :: string
  MonthlyCharges :: real
  TotalCharges :: cell
  Churn :: string

type_synonym frame = "customer list"

text \<open>
  The repository pins no pandas version, and two behaviours that its scripts meet
  differ between the versions. An in-place method called on a selected column
  (\<open>df[c].fillna(v, inplace=True)\<close>) updates the frame before version 3 and leaves
  the frame unchanged from version 3 on (copy-on-write). Grouping by a categorical key
  shows every category before version 3 and only the categories that occur from
  version 3 on (the default of \<open>observed\<close>). \<open>Pandas2\<close> stands for the versions before
  3, \<open>Pandas3\<close> for version 3 and later.
\<close>

datatype pandas = Pandas2 | Pandas3

section \<open>Segmenter\<close>

text \<open>\<open>create_segments\<close> in \<open>TelecomChurnAnalyzer.customer_segmentation\<close>: an
  \<open>if\<close>/\<open>elif\<close> chain, first match wins.\<close>

definition create_segments :: "customer \<Rightarrow> string" where
  "create_segments row =
     (if Contract row = ''Month-to-month'' \<and> tenure row < 12 then
        ''High Risk - New Month-to-Month''
      else if Contract row = ''Month-to-month'' \<and> tenure row \<ge> 12 then
        ''Medium Risk - Established Month-to-Month''
      else if Contract row = ''One year'' \<and> tenure row < 6 then
        ''Medium Risk - New Annual''
      else if Contract row = ''Two year'' then
        ''Low Risk - Long-term''
      else
        ''Stable - Established Annual'')"

text \<open>The three derived columns of the view \<open>customer_segments\<close> in
  \<open>TelecomPostgresLoader.create_analysis_views\<close>; a searched \<open>CASE\<close> takes the first
  \<open>WHEN\<close> whose condition is true.\<close>

definition sql_customer_segment :: "customer \<Rightarrow> string" where
  "sql_customer_segment row =
     (if Contract row = ''Month-to-month'' \<and> tenure row < 12 then
        ''High Risk - New Month-to-Month''
      else if Contract row = ''Month-to-month'' \<and> tenure row \<ge> 12 then
        ''Medium Risk - Established Month-to-Month''
      else if Contract row = ''One year'' \<and> tenure row < 6 then
        ''Medium Risk - New Annual''
      else if Contract row = ''Two year'' then
        ''Low Risk - Long-term''
      else
        ''Stable - Established Annual'')"

definition sql_churn_risk :: "customer \<Rightarrow> string" where
  "sql_churn_risk row =
     (if Contract row = ''Month-to-month'' \<and> tenure row < 12 then ''High Risk''
      else if Contract row = ''Month-to-month'' \<and> tenure row < 24 then ''Medium Risk''
      else if Contract row = ''One year'' \<and> tenure row < 6 then ''Medium Risk''
      else ''Low Risk'')"

text \<open>\<open>clv\<close>: the column \<open>TotalCharges\<close> of the table is a nullable double; NaN is
  stored as NULL, for which \<open>"TotalCharges" > 0\<close> is not true, so the \<open>ELSE\<close> branch
  is taken. Text never reaches the table (\<open>clean_data\<close> runs before \<open>to_sql\<close>).\<close>

definition sql_clv :: "customer \<Rightarrow> real" where
  "sql_clv row =
     (case TotalCharges row of
        Num t \<Rightarrow> (if t > 0 then t else MonthlyCharges row * of_int (tenure row))
      | _ \<Rightarrow> MonthlyCharges row * of_int (tenure row))"

text \<open>The five labels the segmenter can return.\<close>

definition segment_labels :: "string list" where
  "segment_labels =
     [''High Risk - New Month-to-Month'',
      ''Medium Risk - Established Month-to-Month'',
      ''Medium Risk - New Annual'',
      ''Low Risk - Long-term'',
      ''Stable - Established Annual'']"

text \<open>A fixed row used to build concrete inputs by record update.\<close>

definition customer0 :: customer where
  "customer0 =
     \<lparr>customerID = ''0001-AAAAA'', SeniorCitizen = 0, Partner = ''No'', Dependents = ''No'',
      tenure = 0, Contract = ''Month-to-month'', InternetService = ''DSL'',
      MonthlyCharges = 50, TotalCharges = Num 0, Churn = ''No''\<rparr>"

section \<open>Cleaner\<close>

text \<open>The number syntax that \<open>pd.to_numeric\<close> accepts belongs to pandas, not to this
  repository: it is a parameter. \<open>None\<close> means that the text is not a number.\<close>

type_synonym parser = "string \<Rightarrow> real option"

text \<open>\<open>pd.to_numeric(col, errors='coerce')\<close> on one value: text that parses becomes
  its number, text that does not parse becomes NaN instead of raising; a value that is
  already numeric, or NaN, stays as it is. Text that is empty or consists of spaces only
  (the placeholder of the data set) is never a number; for all other text the parameter
  decides.\<close>

definition to_numeric_coerce :: "parser \<Rightarrow> cell \<Rightarrow> cell" where
  "to_numeric_coerce parse c =
     (case c of
        Str s \<Rightarrow>
          (if list_all (\<lambda>ch. ch = CHR '' '') s then NaN
           else (case parse s of Some v \<Rightarrow> Num v | None \<Rightarrow> NaN))
      | Num v \<Rightarrow> Num v
      | NaN \<Rightarrow> NaN)"

text \<open>\<open>col.fillna(v)\<close> on one value.\<close>

definition fillna :: "real \<Rightarrow> cell \<Rightarrow> cell" where
  "fillna v c = (case c of NaN \<Rightarrow> Num v | _ \<Rightarrow> c)"

text \<open>\<open>TelecomChurnAnalyzer.load_data\<close>, after \<open>pd.read_csv\<close> has produced the frame.
  The first statement assigns the converted column to the frame. The second,
  \<open>self.df['TotalCharges'].fillna(0, inplace=True)\<close>, fills the selected column in
  place: before pandas 3 that is the column of the frame; from pandas 3 on it is a
  temporary copy, and the frame keeps its NaN (the warning about it is silenced by
  \<open>warnings.filterwarnings('ignore')\<close>).\<close>

definition load_data :: "pandas \<Rightarrow> parser \<Rightarrow> frame \<Rightarrow> frame" where
  "load_data version parse df =
     (let df1 = map (\<lambda>r. r\<lparr>TotalCharges := to_numeric_coerce parse (TotalCharges r)\<rparr>) df;
          df2 = (case version of
                   Pandas2 \<Rightarrow> map (\<lambda>r. r\<lparr>TotalCharges := fillna 0 (TotalCharges r)\<rparr>) df1
                 | Pandas3 \<Rightarrow> df1)
      in df2)"

text \<open>\<open>astype(int)\<close> and \<open>astype(float)\<close> on a column that already holds integers,
  respectively floats: nothing changes. The columns \<open>SeniorCitizen\<close>, \<open>tenure\<close> and
  \<open>MonthlyCharges\<close> of a \<open>frame\<close> are such columns (a file with a blank in one of them,
  on which the cast raises, is not a value of this type). \<open>TotalCharges\<close> is a float
  column once \<open>to_numeric\<close> has run: its cells are numbers or NaN, which the cast
  keeps; text does not reach the cast.\<close>

definition astype_int :: "int \<Rightarrow> int" where
  "astype_int n = n"

definition astype_float :: "real \<Rightarrow> real" where
  "astype_float x = x"

definition astype_float_cell :: "cell \<Rightarrow> cell" where
  "astype_float_cell c = (case c of Num v \<Rightarrow> Num (astype_float v) | NaN \<Rightarrow> NaN | Str s \<Rightarrow> Str s)"

text \<open>\<open>TelecomPostgresLoader.clean_data\<close>: the same two statements on
  \<open>TotalCharges\<close>, then the casts of the four columns.\<close>

definition clean_data :: "pandas \<Rightarrow> parser \<Rightarrow> frame \<Rightarrow> frame" where
  "clean_data version parse df =
     (let df1 = map (\<lambda>r. r\<lparr>TotalCharges := to_numeric_coerce parse (TotalCharges r)\<rparr>) df;
          df2 = (case version of
                   Pandas2 \<Rightarrow> map (\<lambda>r. r\<lparr>TotalCharges := fillna 0 (TotalCharges r)\<rparr>) df1
                 | Pandas3 \<Rightarrow> df1);
          df3 = map (\<lambda>r. r\<lparr>SeniorCitizen := astype_int (SeniorCitizen r)\<rparr>) df2;
          df4 = map (\<lambda>r. r\<lparr>tenure := astype_int (tenure r)\<rparr>) df3;
          df5 = map (\<lambda>r. r\<lparr>MonthlyCharges := astype_float (MonthlyCharges r)\<rparr>) df4;
          df6 = map (\<lambda>r. r\<lparr>TotalCharges := astype_float_cell (TotalCharges r)\<rparr>) df5
      in df6)"

section \<open>Lifetime-value proxies\<close>

text \<open>\<open>estimated_lifetime_value\<close> in \<open>revenue_impact_analysis\<close> ("simplified
  calculation"): the product of two columns, whatever \<open>TotalCharges\<close> holds.\<close>

definition estimated_lifetime_value :: "customer \<Rightarrow> real" where
  "estimated_lifetime_value row = MonthlyCharges row * of_int (tenure row)"

text \<open>The summand of \<open>lifetime_value_lost\<close> in the first query of
  \<open>TelecomPostgresAnalyzer.analyze_revenue_impact\<close>.\<close>

definition sql_lifetime_value_term :: "customer \<Rightarrow> real" where
  "sql_lifetime_value_term row =
     (if Churn row = ''Yes'' then MonthlyCharges row * of_int (tenure row) else 0)"

section \<open>Columns of the frame and of the view\<close>

text \<open>\<open>df[c] = ...\<close> adds the column \<open>c\<close> when the frame does not have it.\<close>

definition assign_column :: "string \<Rightarrow> string list \<Rightarrow> string list" where
  "assign_column c cols = (if c \<in> set cols then cols else cols @ [c])"

text \<open>The columns of \<open>self.df\<close> after \<open>run_complete_analysis\<close>: \<open>load_data\<close> assigns
  \<open>TotalCharges\<close>, \<open>cohort_analysis\<close> assigns \<open>cohort_month\<close> and \<open>cohort_group\<close>,
  \<open>customer_segmentation\<close> assigns \<open>customer_segment\<close>; \<open>predictive_modeling\<close> and
  \<open>revenue_impact_analysis\<close> assign to a copy and to a selection of the frame.\<close>

definition run_complete_analysis_columns :: "string list \<Rightarrow> string list" where
  "run_complete_analysis_columns cols =
     assign_column ''customer_segment''
       (assign_column ''cohort_group''
         (assign_column ''cohort_month''
           (assign_column ''TotalCharges'' cols)))"

text \<open>The columns of \<open>churned_customers\<close> inside \<open>revenue_impact_analysis\<close>.\<close>

definition revenue_impact_analysis_columns :: "string list \<Rightarrow> string list" where
  "revenue_impact_analysis_columns cols =
     assign_column ''estimated_lifetime_value'' (run_complete_analysis_columns cols)"

text \<open>The select list of the view \<open>customer_segments\<close>.\<close>

definition customer_segments_columns :: "string list" where
  "customer_segments_columns =
     [''customerID'', ''gender'', ''SeniorCitizen'', ''Partner'', ''Dependents'', ''tenure'',
      ''MonthlyCharges'', ''TotalCharges'', ''Contract'', ''InternetService'', ''Churn'',
      ''customer_segment'', ''churn_risk'', ''clv'']"

text \<open>The columns of the input file that the scripts read.\<close>

definition csv_columns :: "string list" where
  "csv_columns =
     [''customerID'', ''gender'', ''SeniorCitizen'', ''Partner'', ''Dependents'', ''tenure'',
      ''PhoneService'', ''MultipleLines'', ''InternetService'', ''OnlineSecurity'',
      ''OnlineBackup'', ''DeviceProtection'', ''TechSupport'', ''StreamingTV'',
      ''StreamingMovies'', ''Contract'', ''PaperlessBilling'', ''PaymentMethod'',
      ''MonthlyCharges'', ''TotalCharges'', ''Churn'']"

section \<open>Rounding and division\<close>

text \<open>Rounding to the nearest integer with ties going to the even neighbour, the
  rounding that \<open>numpy\<close> applies to the scaled value.\<close>

definition rint :: "real \<Rightarrow> int" where
  "rint x =
     (let f = \<lfloor>x\<rfloor>; d = x - of_int f
      in if d < 1 / 2 then f else if 1 / 2 < d then f + 1 else if even f then f else f + 1)"

text \<open>\<open>.round(d)\<close> of an aggregated table on one value that the model holds exactly
  (a sum or a mean of charges): scale by \<open>10 ^ d\<close>, round to the nearest integer, scale
  back.\<close>

definition np_round :: "nat \<Rightarrow> real \<Rightarrow> real" where
  "np_round d x = of_int (rint (x * 10 ^ d)) / 10 ^ d"

text \<open>\<open>ROUND(x::numeric, d)\<close> of PostgreSQL: the magnitude is rounded to the nearest
  multiple of \<open>10 ^ (- d)\<close>, a tie going up, and the sign is put back.\<close>

definition sql_round :: "nat \<Rightarrow> real \<Rightarrow> real" where
  "sql_round d x = sgn x * of_int \<lfloor>\<bar>x\<bar> * 10 ^ d + 1 / 2\<rfloor> / 10 ^ d"


text \<open>
  Binary floating point (\<open>float64\<close>). A finite float is a real number; \<open>None\<close> stands
  for the non-finite results (NaN and the infinities). \<open>binade x\<close> is the power of two
  \<open>2 ^ e\<close> with \<open>2 ^ e \<le> \<bar>x\<bar> < 2 ^ (e + 1)\<close>, the exponent kept between \<open>- 1022\<close>
  and \<open>1023\<close>; the floats of that binade are the multiples of \<open>2 ^ (e - 52)\<close>.
  \<open>float64_nearest\<close> rounds a real to the nearest such multiple, a tie going to the
  even one, and \<open>float64\<close> is the result of an operation whose exact value is \<open>x\<close>: the
  nearest float, or non-finite when that leaves the range.
\<close>

fun binade_up :: "nat \<Rightarrow> real \<Rightarrow> real \<Rightarrow> real" where
  "binade_up 0 p a = p"
| "binade_up (Suc k) p a = (if 2 * p \<le> a then binade_up k (2 * p) a else p)"

fun binade_down :: "nat \<Rightarrow> real \<Rightarrow> real \<Rightarrow> real" where
  "binade_down 0 p a = p"
| "binade_down (Suc k) p a = (if a < p then binade_down k (p / 2) a else p)"

definition binade :: "real \<Rightarrow> real" where
  "binade x = (if 1 \<le> \<bar>x\<bar> then binade_up 1023 1 \<bar>x\<bar> else binade_down 1022 1 \<bar>x\<bar>)"

definition float64_nearest :: "real \<Rightarrow> real" where
  "float64_nearest x = (let ulp = binade x / 2 ^ 52 in of_int (rint (x / ulp)) * ulp)"

definition float64 :: "real \<Rightarrow> real option" where
  "float64 x = (let y = float64_nearest x in if \<bar>y\<bar> < 2 ^ 1024 then Some y else None)"

text \<open>True division of two integer counts, as a pandas column or a numpy scalar does
  it: both are converted to \<open>float64\<close> and divided; a zero divisor raises nothing and
  gives NaN or an infinity.\<close>

definition int64_true_divide :: "nat \<Rightarrow> nat \<Rightarrow> real option" where
  "int64_true_divide a b =
     (case (float64 (of_nat a), float64 (of_nat b)) of
        (Some x, Some y) \<Rightarrow> (if y = 0 then None else float64 (x / y))
      | _ \<Rightarrow> None)"

text \<open>\<open>Series.round(d)\<close> on one float, as numpy computes it: the float is multiplied
  by \<open>10 ^ d\<close>, the product is rounded to the nearest integer (a tie going to the even
  one), and the integer is divided by \<open>10 ^ d\<close>; each of the two operations rounds its
  result to \<open>float64\<close>.\<close>

definition float64_round :: "nat \<Rightarrow> real \<Rightarrow> real option" where
  "float64_round d x =
     (case float64 (x * 10 ^ d) of
        None \<Rightarrow> None
      | Some y \<Rightarrow> float64 (of_int (rint y) / 10 ^ d))"

text \<open>Division in SQL: a zero divisor aborts the query. The quotient is exact here;
  PostgreSQL carries a \<open>numeric\<close> quotient to at least 16 significant digits.\<close>

datatype sql_error = DivisionByZero

definition sql_div :: "real \<Rightarrow> real \<Rightarrow> sql_error + real" where
  "sql_div a b = (if b = 0 then Inl DivisionByZero else Inr (a / b))"

text \<open>A query delivers its rows when every row could be computed, and the first error
  otherwise.\<close>

fun sql_rows :: "(sql_error + 'a) list \<Rightarrow> sql_error + 'a list" where
  "sql_rows [] = Inr []"
| "sql_rows (x # xs) =
     (case x of
        Inl e \<Rightarrow> Inl e
      | Inr v \<Rightarrow> (case sql_rows xs of Inl e \<Rightarrow> Inl e | Inr vs \<Rightarrow> Inr (v # vs)))"

text \<open>The mean of a column over a group; the mean of no values is NaN (\<open>None\<close>).\<close>

definition mean :: "real list \<Rightarrow> real option" where
  "mean xs = (if xs = [] then None else Some (sum_list xs / of_nat (length xs)))"

text \<open>The numeric values of a column of cells, as \<open>mean\<close> sees them: NaN is skipped. On
  a frame that went through \<open>load_data\<close> no cell is text.\<close>

fun numeric_values :: "cell list \<Rightarrow> real list" where
  "numeric_values [] = []"
| "numeric_values (Num v # cs) = v # numeric_values cs"
| "numeric_values (_ # cs) = numeric_values cs"

section \<open>Aggregator\<close>

text \<open>\<open>df.groupby(key)\<close>: one group for each key value that occurs in the frame, the
  keys in sorted order; a group holds the rows with that key, in frame order.\<close>

definition groupby_keys :: "(customer \<Rightarrow> string) \<Rightarrow> frame \<Rightarrow> string list" where
  "groupby_keys key df = sort (remdups (map key df))"

definition get_group :: "(customer \<Rightarrow> 'k) \<Rightarrow> frame \<Rightarrow> 'k \<Rightarrow> frame" where
  "get_group key df k = filter (\<lambda>r. key r = k) df"

text \<open>One row of \<open>segment_analysis\<close>, with the column names given after the
  aggregation.\<close>

record segment_row =
  customer_segment :: string
  customer_count :: nat
  avg_monthly_charges :: "real option"
  avg_tenure :: "real option"
  avg_total_charges :: "real option"
  churned_customers :: nat
  churn_rate :: "real option"

text \<open>The column \<open>churn_rate\<close> on one row,
  \<open>(segment_analysis['Churn'] / segment_analysis['customerID'] * 100).round(2)\<close>: the
  quotient of the two counts, times 100, rounded to 2 places, all in \<open>float64\<close>.\<close>

definition churn_rate_column :: "nat \<Rightarrow> nat \<Rightarrow> real option" where
  "churn_rate_column Churn_sum customerID_count =
     Option.bind
       (Option.bind (int64_true_divide Churn_sum customerID_count) (\<lambda>q. float64 (q * 100)))
       (float64_round 2)"

text \<open>What a Python call raises. \<open>ZeroDivisionError\<close> is what a division of Python
  numbers by zero raises; no function of this theory returns it.\<close>

datatype py_error = TypeError | ZeroDivisionError

text \<open>\<open>TelecomChurnAnalyzer.customer_segmentation\<close>: the column \<open>customer_segment\<close> is
  \<open>create_segments\<close> of each row; the frame is grouped by it; the aggregation counts
  \<open>customerID\<close>, takes three means and counts the rows with \<open>Churn == 'Yes'\<close>, all
  rounded to 2 places (the counts are integers and stay); \<open>churn_rate\<close> is computed from
  the two counts and rounded to 2 places. The returned table is in key order (sorting by
  \<open>churn_rate\<close> is for printing only). On a frame without rows the aggregated columns
  have no numeric type, and \<open>.round(2)\<close> in the \<open>churn_rate\<close> statement raises
  \<open>TypeError\<close>.\<close>

definition segment_aggregate :: "string \<Rightarrow> frame \<Rightarrow> segment_row" where
  "segment_aggregate k g =
     (let customerID_count = length g;
          Churn_sum = length (filter (\<lambda>r. Churn r = ''Yes'') g)
      in \<lparr>customer_segment = k,
          customer_count = customerID_count,
          avg_monthly_charges = map_option (np_round 2) (mean (map MonthlyCharges g)),
          avg_tenure = map_option (np_round 2) (mean (map (\<lambda>r. of_int (tenure r)) g)),
          avg_total_charges =
            map_option (np_round 2) (mean (numeric_values (map TotalCharges g))),
          churned_customers = Churn_sum,
          churn_rate = churn_rate_column Churn_sum customerID_count\<rparr>)"

definition customer_segmentation :: "frame \<Rightarrow> py_error + segment_row list" where
  "customer_segmentation df =
     (if df = [] then Inl TypeError
      else Inr (map (\<lambda>k. segment_aggregate k (get_group create_segments df k))
                  (groupby_keys create_segments df)))"

text \<open>\<open>pd.cut(x, bins)\<close> on one integer: the bins are the intervals between consecutive
  edges, open on the left and closed on the right; a value in no bin is NaN (\<open>None\<close>).\<close>

type_synonym interval = "int \<times> int"

definition intervals :: "int list \<Rightarrow> interval list" where
  "intervals edges = zip edges (tl edges)"

definition cut :: "int list \<Rightarrow> int \<Rightarrow> interval option" where
  "cut edges x = find (\<lambda>(lo, hi). lo < x \<and> x \<le> hi) (intervals edges)"

text \<open>The table \<open>tenure_churn\<close> of \<open>generate_insights_and_recommendations\<close>:
  \<open>self.df.groupby(pd.cut(self.df['tenure'], bins=[0, 12, 24, 36, 72]))['Churn']
  .apply(lambda x: (x == 'Yes').sum() / len(x) * 100)\<close>. The key is a categorical: before
  pandas 3 every bin is a group, also a bin that no record falls into, and the function
  is applied to each group; from pandas 3 on only the bins that occur are groups.
  Records whose tenure is in no bin are in no group. The function divides a numpy
  integer by a Python integer, which is a \<open>float64\<close> division. On a frame without
  records the statement is not reached: \<open>contract_churn.idxmax()\<close>, eight lines before
  it, raises on the empty table; that is \<open>None\<close> here.\<close>

record tenure_churn_row =
  tenure_bin :: interval
  tenure_churn_rate :: "real option"

definition tenure_churn :: "pandas \<Rightarrow> frame \<Rightarrow> tenure_churn_row list option" where
  "tenure_churn version df =
     (if df = [] then None
      else
        (let bins = intervals [0, 12, 24, 36, 72];
             key = (\<lambda>r. cut [0, 12, 24, 36, 72] (tenure r));
             groups = (case version of
                         Pandas2 \<Rightarrow> bins
                       | Pandas3 \<Rightarrow> filter (\<lambda>b. \<exists>r \<in> set df. key r = Some b) bins)
         in Some (map (\<lambda>b. let x = filter (\<lambda>r. key r = Some b) df
                      in \<lparr>tenure_bin = b,
                          tenure_churn_rate =
                            Option.bind
                              (int64_true_divide (length (filter (\<lambda>r. Churn r = ''Yes'') x)) (length x))
                              (\<lambda>q. float64 (q * 100))\<rparr>)
                   groups)))"

text \<open>The view \<open>churn_summary\<close> of \<open>create_analysis_views\<close>: two derived grouping
  columns, then one row for each combination of the four grouping columns that occurs
  in the table (SQL leaves the order of the rows open; the order of first occurrence is
  used here).\<close>

definition age_group :: "customer \<Rightarrow> string" where
  "age_group row = (if SeniorCitizen row = 1 then ''Senior'' else ''Non-Senior'')"

definition household_type :: "customer \<Rightarrow> string" where
  "household_type row =
     (if Partner row = ''Yes'' \<and> Dependents row = ''Yes'' then ''Family''
      else if Partner row = ''Yes'' \<or> Dependents row = ''Yes'' then ''Couple/Single Parent''
      else ''Single'')"

type_synonym summary_key = "string \<times> string \<times> string \<times> string"

definition churn_summary_key :: "customer \<Rightarrow> summary_key" where
  "churn_summary_key row = (Contract row, InternetService row, age_group row, household_type row)"

record churn_summary_row =
  summary_group :: summary_key
  summary_customer_count :: nat
  summary_avg_monthly_charges :: real
  summary_avg_tenure_months :: real
  summary_churned_customers :: nat
  churn_rate_percent :: real

text \<open>\<open>AVG\<close> divides by the number of rows of the group, which \<open>GROUP BY\<close> never
  leaves at zero; the model sends these divisions through \<open>sql_div\<close> as well as the
  division that the query writes out.\<close>

definition churn_summary_aggregate :: "summary_key \<Rightarrow> frame \<Rightarrow> sql_error + churn_summary_row" where
  "churn_summary_aggregate k g =
     (let n = length g;
          churned = length (filter (\<lambda>r. Churn r = ''Yes'') g)
      in case sql_div (sum_list (map MonthlyCharges g)) (of_nat n) of
           Inl e \<Rightarrow> Inl e
         | Inr avg_monthly \<Rightarrow>
        (case sql_div (sum_list (map (\<lambda>r. of_int (tenure r)) g)) (of_nat n) of
           Inl e \<Rightarrow> Inl e
         | Inr avg_ten \<Rightarrow>
        (case sql_div (of_nat churned * 100) (of_nat n) of
           Inl e \<Rightarrow> Inl e
         | Inr rate \<Rightarrow>
             Inr \<lparr>summary_group = k,
                  summary_customer_count = n,
                  summary_avg_monthly_charges = sql_round 2 avg_monthly,
                  summary_avg_tenure_months = sql_round 1 avg_ten,
                  summary_churned_customers = churned,
                  churn_rate_percent = sql_round 2 rate\<rparr>)))"

definition churn_summary :: "frame \<Rightarrow> sql_error + churn_summary_row list" where
  "churn_summary df =
     sql_rows (map (\<lambda>k. churn_summary_aggregate k (get_group churn_summary_key df k))
                (remdups (map churn_summary_key df)))"

section \<open>Revenue estimator\<close>

text \<open>One row of \<open>revenue_by_segment\<close>, with the column names given after the
  aggregation.\<close>

record revenue_row =
  revenue_segment :: string
  revenue_churned_customers :: nat
  segment_monthly_revenue_lost :: real
  segment_lifetime_value_lost :: real
  segment_annual_revenue_lost :: real

text \<open>What \<open>revenue_impact_analysis\<close> prints (the three figures, before formatting) and
  returns (the table).\<close>

record revenue_impact =
  monthly_revenue_lost :: real
  annual_revenue_lost :: real
  lifetime_value_lost :: real
  revenue_by_segment :: "revenue_row list"

text \<open>\<open>TelecomChurnAnalyzer.revenue_impact_analysis\<close>. The column \<open>customer_segment\<close>
  that it groups by was stored by \<open>customer_segmentation\<close> and is \<open>create_segments\<close> of
  the row. The aggregated table is rounded to 2 places, and the annual column is then
  computed from the rounded monthly column.\<close>

definition revenue_aggregate :: "string \<Rightarrow> frame \<Rightarrow> revenue_row" where
  "revenue_aggregate k g =
     (let monthly = np_round 2 (sum_list (map MonthlyCharges g))
      in \<lparr>revenue_segment = k,
          revenue_churned_customers = length g,
          segment_monthly_revenue_lost = monthly,
          segment_lifetime_value_lost = np_round 2 (sum_list (map estimated_lifetime_value g)),
          segment_annual_revenue_lost = monthly * 12\<rparr>)"

definition revenue_impact_analysis :: "frame \<Rightarrow> revenue_impact" where
  "revenue_impact_analysis df =
     (let churned = filter (\<lambda>r. Churn r = ''Yes'') df;
          monthly = sum_list (map MonthlyCharges churned);
          annual = monthly * 12;
          lifetime = sum_list (map estimated_lifetime_value churned)
      in \<lparr>monthly_revenue_lost = monthly,
          annual_revenue_lost = annual,
          lifetime_value_lost = lifetime,
          revenue_by_segment =
            map (\<lambda>k. revenue_aggregate k (get_group create_segments churned k))
              (groupby_keys create_segments churned)\<rparr>)"

text \<open>The second query of \<open>TelecomPostgresAnalyzer.analyze_revenue_impact\<close>: the common
  table expression \<open>churn_revenue\<close> groups the churned rows by contract and internet
  service and rounds each figure to 2 places; the outer query divides each rounded annual
  figure by the sum of the rounded annual figures.\<close>

type_synonym revenue_key = "string \<times> string"

definition revenue_key :: "customer \<Rightarrow> revenue_key" where
  "revenue_key row = (Contract row, InternetService row)"

record churn_revenue_row =
  cte_group :: revenue_key
  cte_churned_customers :: nat
  cte_avg_monthly_charges :: real
  cte_monthly_revenue_lost :: real
  cte_annual_revenue_lost :: real

definition churn_revenue_aggregate :: "revenue_key \<Rightarrow> frame \<Rightarrow> sql_error + churn_revenue_row" where
  "churn_revenue_aggregate k g =
     (case sql_div (sum_list (map MonthlyCharges g)) (of_nat (length g)) of
        Inl e \<Rightarrow> Inl e
      | Inr avg_monthly \<Rightarrow>
          Inr \<lparr>cte_group = k,
               cte_churned_customers = length g,
               cte_avg_monthly_charges = sql_round 2 avg_monthly,
               cte_monthly_revenue_lost = sql_round 2 (of_nat (length g) * avg_monthly),
               cte_annual_revenue_lost = sql_round 2 (of_nat (length g) * avg_monthly * 12)\<rparr>)"

definition churn_revenue :: "frame \<Rightarrow> sql_error + churn_revenue_row list" where
  "churn_revenue df =
     (let churned = filter (\<lambda>r. Churn r = ''Yes'') df
      in sql_rows (map (\<lambda>k. churn_revenue_aggregate k (get_group revenue_key churned k))
                    (remdups (map revenue_key churned))))"

record sql_revenue_row =
  sql_revenue_group :: revenue_key
  sql_churned_customers :: nat
  sql_avg_monthly_charges :: real
  sql_monthly_revenue_lost :: real
  sql_annual_revenue_lost :: real
  revenue_loss_percentage :: real

definition sql_revenue_select :: "real \<Rightarrow> churn_revenue_row \<Rightarrow> sql_error + sql_revenue_row" where
  "sql_revenue_select total_annual row =
     (case sql_div (cte_annual_revenue_lost row) total_annual of
        Inl e \<Rightarrow> Inl e
      | Inr share \<Rightarrow>
          Inr \<lparr>sql_revenue_group = cte_group row,
               sql_churned_customers = cte_churned_customers row,
               sql_avg_monthly_charges = cte_avg_monthly_charges row,
               sql_monthly_revenue_lost = cte_monthly_revenue_lost row,
               sql_annual_revenue_lost = cte_annual_revenue_lost row,
               revenue_loss_percentage = sql_round 2 (share * 100)\<rparr>)"

text \<open>\<open>ORDER BY annual_revenue_lost DESC\<close>; rows with equal figures keep the order they
  had (SQL leaves their order open).\<close>

definition sql_revenue_by_segment :: "frame \<Rightarrow> sql_error + sql_revenue_row list" where
  "sql_revenue_by_segment df =
     (case churn_revenue df of
        Inl e \<Rightarrow> Inl e
      | Inr cte \<Rightarrow>
          (case sql_rows (map (sql_revenue_select (sum_list (map cte_annual_revenue_lost cte))) cte) of
             Inl e \<Rightarrow> Inl e
           | Inr rows \<Rightarrow> Inr (sort_key (\<lambda>r. - sql_annual_revenue_lost r) rows)))"

section \<open>Lemmas: cleaning\<close>

lemma to_numeric_coerce_number:
  "to_numeric_coerce parse (Num v) = Num v" "to_numeric_coerce parse NaN = NaN"
  "to_numeric_coerce parse (Str s) \<noteq> Str s'"
  by (simp_all add: to_numeric_coerce_def split: option.splits)

lemma to_numeric_coerce_idem:
  "to_numeric_coerce parse (to_numeric_coerce parse c) = to_numeric_coerce parse c"
  by (cases c) (simp_all add: to_numeric_coerce_def split: option.splits)

lemma clean_cell_cases:
  "fillna 0 (to_numeric_coerce parse c) =
     (case c of
        Str s \<Rightarrow> (if list_all (\<lambda>ch. ch = CHR '' '') s then Num 0
                  else (case parse s of Some v \<Rightarrow> Num v | None \<Rightarrow> Num 0))
      | Num v \<Rightarrow> Num v
      | NaN \<Rightarrow> Num 0)"
  by (simp add: fillna_def to_numeric_coerce_def split: cell.splits option.splits)

lemma clean_cell_idem:
  "fillna 0 (to_numeric_coerce parse (fillna 0 (to_numeric_coerce parse c))) =
     fillna 0 (to_numeric_coerce parse c)"
  by (cases c) (simp_all add: fillna_def to_numeric_coerce_def split: option.splits)

lemma load_data_map:
  "load_data Pandas2 parse df =
     map (\<lambda>r. r\<lparr>TotalCharges := fillna 0 (to_numeric_coerce parse (TotalCharges r))\<rparr>) df"
  "load_data Pandas3 parse df =
     map (\<lambda>r. r\<lparr>TotalCharges := to_numeric_coerce parse (TotalCharges r)\<rparr>) df"
  by (simp_all add: load_data_def)

lemma astype_float_cell_cleaned:
  "astype_float_cell (to_numeric_coerce parse c) = to_numeric_coerce parse c"
  "astype_float_cell (fillna 0 (to_numeric_coerce parse c)) = fillna 0 (to_numeric_coerce parse c)"
  by (cases c; simp add: astype_float_cell_def astype_float_def to_numeric_coerce_def fillna_def
        split: option.splits)+

lemma clean_data_load_data: "clean_data version parse df = load_data version parse df"
  by (cases version)
     (simp_all add: clean_data_def load_data_def astype_int_def astype_float_def
        astype_float_cell_cleaned comp_def)

text \<open>Before pandas 3 cleaning keeps every record and every other field, and turns
  every total charge into a number: the parsed number, or 0 for text that is not a number
  and for a missing value.\<close>

lemma load_data_pandas2:
  "length (load_data Pandas2 parse df) = length df \<and>
   (\<forall>i < length df.
      load_data Pandas2 parse df ! i =
        (df ! i)\<lparr>TotalCharges := TotalCharges (load_data Pandas2 parse df ! i)\<rparr> \<and>
      (\<exists>v. TotalCharges (load_data Pandas2 parse df ! i) = Num v) \<and>
      (\<forall>s. TotalCharges (df ! i) = Str s \<and> parse s = None \<longrightarrow>
           TotalCharges (load_data Pandas2 parse df ! i) = Num 0) \<and>
      (TotalCharges (df ! i) = Str [] \<longrightarrow>
           TotalCharges (load_data Pandas2 parse df ! i) = Num 0) \<and>
      (TotalCharges (df ! i) = NaN \<longrightarrow>
           TotalCharges (load_data Pandas2 parse df ! i) = Num 0))"
  by (auto simp add: load_data_map clean_cell_cases split: cell.splits option.splits)

section \<open>Lemmas: rounding\<close>

lemma rint_cases: "rint x = \<lfloor>x\<rfloor> \<or> rint x = \<lfloor>x\<rfloor> + 1 \<and> 1 / 2 \<le> x - of_int \<lfloor>x\<rfloor>"
  by (auto simp add: rint_def Let_def)

lemma rint_between:
  assumes "of_int a \<le> x" and "x \<le> of_int b"
  shows "a \<le> rint x \<and> rint x \<le> b"
proof -
  have lo: "a \<le> \<lfloor>x\<rfloor>" using assms(1) by (simp add: le_floor_iff)
  have hi: "\<lfloor>x\<rfloor> \<le> b" using assms(2) by (simp add: floor_le_iff)
  consider "rint x = \<lfloor>x\<rfloor>" | "rint x = \<lfloor>x\<rfloor> + 1" "1 / 2 \<le> x - of_int \<lfloor>x\<rfloor>"
    using rint_cases [of x] by blast
  then show ?thesis
  proof cases
    case 1
    then show ?thesis using lo hi by simp
  next
    case 2
    then have "of_int \<lfloor>x\<rfloor> < x" by linarith
    then have "of_int \<lfloor>x\<rfloor> < (of_int b :: real)" using assms(2) by linarith
    then have "\<lfloor>x\<rfloor> < b" by simp
    then show ?thesis using 2 lo by simp
  qed
qed

lemma rint_of_int: "rint (of_int k) = k"
  using rint_between [of k "of_int k" k] by simp

lemma rint_error: "\<bar>of_int (rint x) - x\<bar> \<le> 1 / 2"
proof -
  have f: "of_int \<lfloor>x\<rfloor> \<le> x" "x < of_int \<lfloor>x\<rfloor> + 1" by linarith+
  show ?thesis
  proof (cases "x - of_int \<lfloor>x\<rfloor> < 1 / 2")
    case True
    then have "rint x = \<lfloor>x\<rfloor>" by (simp add: rint_def Let_def)
    then show ?thesis using True f by simp
  next
    case False
    show ?thesis
    proof (cases "1 / 2 < x - of_int \<lfloor>x\<rfloor>")
      case True
      then have "rint x = \<lfloor>x\<rfloor> + 1" by (simp add: rint_def Let_def)
      then show ?thesis using True f by simp
    next
      case nogt: False
      with False have half: "x - of_int \<lfloor>x\<rfloor> = 1 / 2" by linarith
      have "rint x = \<lfloor>x\<rfloor> \<or> rint x = \<lfloor>x\<rfloor> + 1" using rint_cases [of x] by blast
      then show ?thesis using half by auto
    qed
  qed
qed





section \<open>Lemmas: grouping\<close>

lemma set_groupby_keys: "set (groupby_keys key df) = key ` set df"
  by (simp add: groupby_keys_def)

lemma distinct_groupby_keys: "distinct (groupby_keys key df)"
  by (simp add: groupby_keys_def)

lemma get_group_nonempty: "k \<in> key ` set df \<Longrightarrow> get_group key df k \<noteq> []"
  by (auto simp add: get_group_def filter_empty_conv)

lemma length_get_group_pos: "k \<in> key ` set df \<Longrightarrow> 0 < length (get_group key df k)"
  using get_group_nonempty [of k key df] by simp

text \<open>Grouping partitions a frame: summed over keys that are pairwise different and
  cover the frame, the per-group counts of the rows with a property give its count.\<close>

lemma sum_list_indicator:
  fixes c :: "'b::comm_monoid_add"
  shows "distinct ks \<Longrightarrow> (\<Sum>k\<leftarrow>ks. if a = k then c else 0) = (if a \<in> set ks then c else 0)"
proof (induction ks)
  case Nil
  then show ?case by simp
next
  case (Cons k ks)
  then show ?case by (cases "a = k") auto
qed

lemma groups_partition_sum:
  fixes f :: "customer \<Rightarrow> 'b::comm_monoid_add"
  shows "distinct ks \<Longrightarrow> key ` set df \<subseteq> set ks \<Longrightarrow>
     (\<Sum>k\<leftarrow>ks. sum_list (map f (get_group key df k))) = sum_list (map f df)"
proof (induction df)
  case Nil
  then show ?case by (simp add: get_group_def)
next
  case (Cons r df)
  have split: "sum_list (map f (get_group key (r # df) k)) =
      (if key r = k then f r else 0) + sum_list (map f (get_group key df k))" for k
    by (simp add: get_group_def)
  have "(\<Sum>k\<leftarrow>ks. sum_list (map f (get_group key (r # df) k))) =
        (\<Sum>k\<leftarrow>ks. if key r = k then f r else 0) +
        (\<Sum>k\<leftarrow>ks. sum_list (map f (get_group key df k)))"
    by (simp only: split sum_list_addf)
  then show ?case using Cons sum_list_indicator [of ks "key r" "f r"] by simp
qed

lemma length_filter_sum_list: "length (filter P xs) = (\<Sum>x\<leftarrow>xs. if P x then (1::nat) else 0)"
  by (induction xs) simp_all

lemma groups_partition_count:
  assumes "distinct ks" and "key ` set df \<subseteq> set ks"
  shows "(\<Sum>k\<leftarrow>ks. length (filter P (get_group key df k))) = length (filter P df)"
  using groups_partition_sum [OF assms, of "\<lambda>r. if P r then (1::nat) else 0"]
  by (simp add: length_filter_sum_list)

section \<open>Lemmas: binary floating point\<close>

lemma binade_up_form:
  "0 < p \<Longrightarrow> p \<le> a \<Longrightarrow> \<exists>m. m \<le> k \<and> binade_up k p a = p * 2 ^ m \<and> binade_up k p a \<le> a"
proof (induction k arbitrary: p)
  case 0
  then show ?case by simp
next
  case (Suc k)
  show ?case
  proof (cases "2 * p \<le> a")
    case True
    from Suc.IH [of "2 * p"] Suc.prems True
    obtain m where m: "m \<le> k" "binade_up k (2 * p) a = 2 * p * 2 ^ m" "binade_up k (2 * p) a \<le> a"
      by auto
    show ?thesis
    proof (intro exI [of _ "Suc m"] conjI)
      show "Suc m \<le> Suc k" using m by simp
      show "binade_up (Suc k) p a = p * 2 ^ Suc m" using True m by simp
      show "binade_up (Suc k) p a \<le> a" using True m by simp
    qed
  next
    case False
    show ?thesis
    proof (intro exI [of _ 0] conjI)
      show "0 \<le> Suc k" by simp
      show "binade_up (Suc k) p a = p * 2 ^ 0" using False by simp
      show "binade_up (Suc k) p a \<le> a" using False Suc.prems by simp
    qed
  qed
qed

lemma binade_down_form: "\<exists>m. m \<le> k \<and> binade_down k p a = p / 2 ^ m"
proof (induction k arbitrary: p)
  case 0
  then show ?case by simp
next
  case (Suc k)
  show ?case
  proof (cases "a < p")
    case True
    from Suc.IH [of "p / 2"] obtain m where m: "m \<le> k" "binade_down k (p / 2) a = p / 2 / 2 ^ m"
      by auto
    show ?thesis
    proof (intro exI [of _ "Suc m"] conjI)
      show "Suc m \<le> Suc k" using m by simp
      show "binade_down (Suc k) p a = p / 2 ^ Suc m" using True m by simp
    qed
  next
    case False
    show ?thesis
    proof (intro exI [of _ 0] conjI)
      show "0 \<le> Suc k" by simp
      show "binade_down (Suc k) p a = p / 2 ^ 0" using False by simp
    qed
  qed
qed

text \<open>The binade of a number: a power of two, or the reciprocal of one, that is at most
  the larger of 1 and the magnitude.\<close>

lemma binade_cases:
  "(1 \<le> \<bar>x\<bar> \<and> (\<exists>m. binade x = 2 ^ m \<and> 2 ^ m \<le> \<bar>x\<bar>)) \<or>
   (\<bar>x\<bar> < 1 \<and> (\<exists>m. binade x = 1 / 2 ^ m))"
proof (cases "1 \<le> \<bar>x\<bar>")
  case True
  from binade_up_form [of 1 "\<bar>x\<bar>" 1023] True
  obtain m where "binade_up 1023 1 \<bar>x\<bar> = 1 * 2 ^ m" "binade_up 1023 1 \<bar>x\<bar> \<le> \<bar>x\<bar>"
    by auto
  then show ?thesis using True by (auto simp add: binade_def)
next
  case False
  from binade_down_form [of 1022 1 "\<bar>x\<bar>"]
  obtain m where "binade_down 1022 1 \<bar>x\<bar> = 1 / 2 ^ m" by auto
  then show ?thesis using False by (auto simp add: binade_def)
qed

lemma binade_pos: "0 < binade x"
  using binade_cases [of x] by auto

lemma binade_le: "binade x \<le> max 1 \<bar>x\<bar>"
proof -
  have "1 / 2 ^ m \<le> (1::real)" for m :: nat
    by (simp add: divide_le_eq)
  then show ?thesis using binade_cases [of x] by (auto simp add: max_def)
qed

lemma float64_nearest_error: "\<bar>float64_nearest x - x\<bar> \<le> max 1 \<bar>x\<bar> / 2 ^ 53"
proof -
  define ulp where "ulp = binade x / 2 ^ 52"
  have pos: "0 < ulp" using binade_pos [of x] by (simp add: ulp_def)
  have fl: "float64_nearest x = of_int (rint (x / ulp)) * ulp"
    by (simp only: float64_nearest_def Let_def ulp_def)
  have "float64_nearest x - x = (of_int (rint (x / ulp)) - x / ulp) * ulp"
    using pos by (simp add: fl field_simps)
  then have "\<bar>float64_nearest x - x\<bar> = \<bar>of_int (rint (x / ulp)) - x / ulp\<bar> * ulp"
    using pos by (simp add: abs_mult)
  also have "\<dots> \<le> 1 / 2 * ulp"
    using rint_error [of "x / ulp"] pos by (intro mult_right_mono) simp_all
  also have "\<dots> = binade x / 2 ^ 53" by (simp add: ulp_def)
  also have "\<dots> \<le> max 1 \<bar>x\<bar> / 2 ^ 53"
    using binade_le [of x] by (intro divide_right_mono) simp_all
  finally show ?thesis .
qed

lemma grid_up: "(P::real) = 2 ^ m * 2 ^ j \<Longrightarrow> b / (2 ^ m / P) = b * 2 ^ j"
  by simp

lemma grid_down: "b / (1 / 2 ^ m / (P::real)) = b * (2 ^ m * P)"
  by simp

text \<open>A natural number below \<open>2 ^ 53\<close> lies on the grid of floats of every binade at
  or below it.\<close>

lemma on_grid:
  assumes "0 \<le> x" and "x \<le> of_nat B" and "B < 2 ^ 53"
  shows "\<exists>M::int. of_nat B / (binade x / 2 ^ 52) = of_int M"
proof -
  consider m where "1 \<le> \<bar>x\<bar>" "binade x = 2 ^ m" "2 ^ m \<le> \<bar>x\<bar>"
    | m where "\<bar>x\<bar> < 1" "binade x = 1 / 2 ^ m"
    using binade_cases [of x] by blast
  then show ?thesis
  proof cases
    case 1
    have "\<bar>x\<bar> = x" using assms(1) by simp
    then have "(2::real) ^ m \<le> x" using 1 by (simp only:)
    then have "(2::real) ^ m \<le> of_nat B" using assms(2) by (rule order_trans)
    also have "\<dots> < 2 ^ 53" using assms(3) by (metis of_nat_less_iff of_nat_numeral of_nat_power)
    finally have lt: "(2::real) ^ m < 2 ^ 53" .
    have "m < 53"
    proof (rule ccontr)
      assume "\<not> m < 53"
      then have "53 \<le> m" by simp
      then have "(2::real) ^ 53 \<le> 2 ^ m" by (intro power_increasing) simp_all
      with lt show False by linarith
    qed
    then have "m + (52 - m) = 52" by simp
    moreover have "(2::real) ^ (m + (52 - m)) = 2 ^ m * 2 ^ (52 - m)" by (rule power_add)
    ultimately have e: "(2::real) ^ 52 = 2 ^ m * 2 ^ (52 - m)" by (simp only:)
    have "of_nat B / (binade x / 2 ^ 52) = of_nat B * 2 ^ (52 - m)"
      by (simp only: 1 grid_up [OF e])
    also have "\<dots> = of_int (int B * 2 ^ (52 - m))" by simp
    finally have "of_nat B / (binade x / 2 ^ 52) = of_int (int B * 2 ^ (52 - m))" .
    then show ?thesis by blast
  next
    case 2
    have "of_nat B / (binade x / 2 ^ 52) = of_nat B * (2 ^ m * 2 ^ 52)"
      by (simp only: 2 grid_down)
    also have "\<dots> = of_int (int B * (2 ^ m * 2 ^ 52))" by (simp only: of_int_mult of_int_of_nat_eq of_int_power of_int_numeral)
    finally have "of_nat B / (binade x / 2 ^ 52) = of_int (int B * (2 ^ m * 2 ^ 52))" .
    then show ?thesis by blast
  qed
qed

lemma float64_nearest_bounds:
  assumes "0 \<le> x" and "x \<le> of_nat B" and "B < 2 ^ 53"
  shows "0 \<le> float64_nearest x \<and> float64_nearest x \<le> of_nat B"
proof -
  define ulp where "ulp = binade x / 2 ^ 52"
  have pos: "0 < ulp" using binade_pos [of x] by (simp add: ulp_def)
  obtain M :: int where M: "of_nat B / ulp = of_int M"
    using on_grid [OF assms] unfolding ulp_def by blast
  have "of_int 0 \<le> x / ulp" using assms(1) pos by simp
  moreover have "x / ulp \<le> of_int M"
    using assms(2) pos M by (metis divide_right_mono less_imp_le)
  ultimately have r: "0 \<le> rint (x / ulp) \<and> rint (x / ulp) \<le> M"
    by (rule rint_between)
  have "float64_nearest x = of_int (rint (x / ulp)) * ulp"
    by (simp only: float64_nearest_def Let_def ulp_def)
  moreover have "0 \<le> (of_int (rint (x / ulp)) :: real) * ulp"
    using r pos by simp
  moreover have "(of_int (rint (x / ulp)) :: real) * ulp \<le> of_int M * ulp"
    using r pos by (intro mult_right_mono) simp_all
  moreover have "of_int M * ulp = (of_nat B :: real)"
    using M pos by (simp add: field_simps)
  ultimately show ?thesis by simp
qed

lemma float64_nearest_of_nat:
  assumes "n < 2 ^ 53"
  shows "float64_nearest (of_nat n) = of_nat n"
proof -
  define ulp where "ulp = binade (of_nat n) / 2 ^ 52"
  have pos: "0 < ulp" using binade_pos [of "of_nat n"] by (simp add: ulp_def)
  obtain M :: int where M: "of_nat n / ulp = of_int M"
    using on_grid [of "of_nat n" n] assms unfolding ulp_def by auto
  have "float64_nearest (of_nat n) = of_int (rint (of_nat n / ulp)) * ulp"
    by (simp only: float64_nearest_def Let_def ulp_def)
  also have "\<dots> = of_int M * ulp" by (simp only: M rint_of_int)
  also have "\<dots> = of_nat n" using M pos by (simp add: field_simps)
  finally show ?thesis .
qed

lemma float64_finite:
  assumes "0 \<le> x" and "x \<le> of_nat B" and "B < 2 ^ 53"
  shows "float64 x = Some (float64_nearest x)"
proof -
  have b: "0 \<le> float64_nearest x \<and> float64_nearest x \<le> of_nat B"
    using assms by (rule float64_nearest_bounds)
  have "(of_nat B :: real) < 2 ^ 53"
    using assms(3) by (metis of_nat_less_iff of_nat_numeral of_nat_power)
  also have "\<dots> \<le> 2 ^ 1024" by (intro power_increasing) simp_all
  finally have "\<bar>float64_nearest x\<bar> < 2 ^ 1024" using b by simp
  then show ?thesis by (simp add: float64_def Let_def)
qed

lemma float64_nearest_error_le:
  assumes "0 \<le> v" and "v \<le> B" and "1 \<le> B"
  shows "\<bar>float64_nearest v - v\<bar> \<le> B / 2 ^ 53"
proof -
  have "max 1 \<bar>v\<bar> \<le> B" using assms by simp
  then have "max 1 \<bar>v\<bar> / 2 ^ 53 \<le> B / 2 ^ 53" by (intro divide_right_mono) simp_all
  with float64_nearest_error [of v] show ?thesis by (rule order_trans)
qed

lemma float64_of_nat: "n < 2 ^ 53 \<Longrightarrow> float64 (of_nat n) = Some (of_nat n)"
  using float64_finite [of "of_nat n" n] float64_nearest_of_nat [of n] by simp

lemma int64_true_divide_props:
  assumes "c \<le> n" and "0 < n" and "n < 2 ^ 53"
  shows "int64_true_divide c n = Some (float64_nearest (real c / real n))"
    and "0 \<le> float64_nearest (real c / real n)"
    and "float64_nearest (real c / real n) \<le> 1"
proof -
  have c: "c < 2 ^ 53" using assms by simp
  have range: "0 \<le> real c / real n" "real c / real n \<le> of_nat 1"
    using assms by (simp_all add: divide_le_eq)
  have "float64 (real c / real n) = Some (float64_nearest (real c / real n))"
    using range by (rule float64_finite) simp
  then show "int64_true_divide c n = Some (float64_nearest (real c / real n))"
    using assms by (simp add: int64_true_divide_def float64_of_nat c)
  have "0 \<le> float64_nearest (real c / real n) \<and> float64_nearest (real c / real n) \<le> of_nat 1"
    using range by (rule float64_nearest_bounds) simp
  then show "0 \<le> float64_nearest (real c / real n)" "float64_nearest (real c / real n) \<le> 1"
    by simp_all
qed

lemma percent_chain:
  assumes "c \<le> n" and "0 < n" and "n < 2 ^ 53"
  defines "q \<equiv> float64_nearest (real c / real n)"
  defines "x \<equiv> float64_nearest (q * 100)"
  shows "Option.bind (int64_true_divide c n) (\<lambda>q. float64 (q * 100)) = Some x"
    and "0 \<le> x" and "x \<le> 100"
    and "\<bar>x - real c / real n * 100\<bar> \<le> 200 / 2 ^ 53"
proof -
  have q: "int64_true_divide c n = Some q" "0 \<le> q" "q \<le> 1"
    unfolding q_def using assms(1-3) by (rule int64_true_divide_props)+
  have qr: "0 \<le> q * 100" "q * 100 \<le> of_nat 100" using q by simp_all
  have fx: "float64 (q * 100) = Some x"
    unfolding x_def using qr by (rule float64_finite) simp
  show "Option.bind (int64_true_divide c n) (\<lambda>q. float64 (q * 100)) = Some x"
    by (simp add: q fx)
  have xb: "0 \<le> x \<and> x \<le> of_nat 100"
    unfolding x_def using qr by (rule float64_nearest_bounds) simp
  then show "0 \<le> x" "x \<le> 100" by simp_all
  have cn: "0 \<le> real c / real n" "real c / real n \<le> 1"
    using assms(1-3) by (simp_all add: divide_le_eq)
  have e1: "\<bar>q - real c / real n\<bar> \<le> 1 / 2 ^ 53"
    unfolding q_def using cn by (rule float64_nearest_error_le) simp
  have e2: "\<bar>x - q * 100\<bar> \<le> 100 / 2 ^ 53"
    unfolding x_def using qr by (intro float64_nearest_error_le) simp_all
  define e where "e = (1::real) / 2 ^ 53"
  define t where "t = real c / real n"
  have "\<bar>q - t\<bar> \<le> e" "\<bar>x - q * 100\<bar> \<le> 100 * e"
    using e1 e2 by (simp_all add: e_def t_def)
  then have "\<bar>x - t * 100\<bar> \<le> 200 * e" by linarith
  then show "\<bar>x - real c / real n * 100\<bar> \<le> 200 / 2 ^ 53" by (simp add: e_def t_def)
qed

lemma float64_round_props:
  assumes "0 \<le> x" and "x \<le> 100"
  defines "y \<equiv> float64_nearest (x * 10 ^ 2)"
  defines "p \<equiv> float64_nearest (of_int (rint y) / 10 ^ 2)"
  shows "float64_round 2 x = Some p"
    and "0 \<le> p" and "p \<le> 100"
    and "\<bar>p - x\<bar> \<le> 1 / 200 + 200 / 2 ^ 53"
proof -
  have xr: "0 \<le> x * 10 ^ 2" "x * 10 ^ 2 \<le> of_nat 10000" using assms(1,2) by simp_all
  have fy: "float64 (x * 10 ^ 2) = Some y"
    unfolding y_def using xr by (rule float64_finite) simp
  have yb: "0 \<le> y \<and> y \<le> of_nat 10000"
    unfolding y_def using xr by (rule float64_nearest_bounds) simp
  then have "of_int 0 \<le> y" "y \<le> of_int 10000" by simp_all
  then have r: "0 \<le> rint y \<and> rint y \<le> 10000" by (rule rint_between)
  then have rr: "(0::real) \<le> of_int (rint y)" "(of_int (rint y) :: real) \<le> 10000"
    by (simp, metis of_int_le_iff of_int_numeral)
  have pr: "0 \<le> (of_int (rint y) :: real) / 10 ^ 2" "(of_int (rint y) :: real) / 10 ^ 2 \<le> of_nat 100"
    using rr by simp_all
  have fp: "float64 (of_int (rint y) / 10 ^ 2) = Some p"
    unfolding p_def using pr by (rule float64_finite) simp
  show "float64_round 2 x = Some p" by (simp only: float64_round_def fy fp option.case)
  have pb: "0 \<le> p \<and> p \<le> of_nat 100"
    unfolding p_def using pr by (rule float64_nearest_bounds) simp
  then show "0 \<le> p" "p \<le> 100" by simp_all
  have e3: "\<bar>y - x * 10 ^ 2\<bar> \<le> 10000 / 2 ^ 53"
    unfolding y_def using xr by (intro float64_nearest_error_le) simp_all
  have e4: "\<bar>of_int (rint y) - y\<bar> \<le> 1 / 2" by (rule rint_error)
  have e5: "\<bar>p - of_int (rint y) / 10 ^ 2\<bar> \<le> 100 / 2 ^ 53"
    unfolding p_def using pr by (intro float64_nearest_error_le) simp_all
  define e where "e = (1::real) / 2 ^ 53"
  define r where "r = (of_int (rint y) :: real)"
  have "\<bar>y - x * 100\<bar> \<le> 10000 * e" "\<bar>r - y\<bar> \<le> 1 / 2" "\<bar>p - r / 100\<bar> \<le> 100 * e"
    using e3 e4 e5 by (simp_all add: e_def r_def)
  then have "\<bar>p - x\<bar> \<le> 1 / 200 + 200 * e" by linarith
  then show "\<bar>p - x\<bar> \<le> 1 / 200 + 200 / 2 ^ 53" by (simp add: e_def)
qed

lemma churn_rate_column_props:
  assumes "c \<le> n" and "0 < n" and "n < 2 ^ 53"
  defines "x \<equiv> float64_nearest (float64_nearest (real c / real n) * 100)"
  defines "y \<equiv> float64_nearest (x * 10 ^ 2)"
  defines "p \<equiv> float64_nearest (of_int (rint y) / 10 ^ 2)"
  shows "churn_rate_column c n = Some p"
    and "0 \<le> p" and "p \<le> 100"
    and "\<bar>p - real c / real n * 100\<bar> \<le> 1 / 200 + 1 / 10 ^ 13"
proof -
  have x: "Option.bind (int64_true_divide c n) (\<lambda>q. float64 (q * 100)) = Some x"
    "0 \<le> x" "x \<le> 100" "\<bar>x - real c / real n * 100\<bar> \<le> 200 / 2 ^ 53"
    unfolding x_def using assms(1-3) by (rule percent_chain)+
  have p: "float64_round 2 x = Some p" "0 \<le> p" "p \<le> 100" "\<bar>p - x\<bar> \<le> 1 / 200 + 200 / 2 ^ 53"
    unfolding p_def y_def using x(2,3) by (rule float64_round_props)+
  show "churn_rate_column c n = Some p"
    by (simp add: churn_rate_column_def x(1) p(1))
  show "0 \<le> p" "p \<le> 100" by (rule p)+
  define e where "e = (1::real) / 2 ^ 53"
  define t where "t = real c / real n * 100"
  have "\<bar>x - t\<bar> \<le> 200 * e" "\<bar>p - x\<bar> \<le> 1 / 200 + 200 * e"
    using x(4) p(4) by (simp_all add: e_def t_def)
  then have "\<bar>p - t\<bar> \<le> 1 / 200 + 400 * e" by linarith
  moreover have "400 * e \<le> 1 / 10 ^ 13" by (simp add: e_def)
  ultimately have "\<bar>p - t\<bar> \<le> 1 / 200 + 1 / 10 ^ 13" by linarith
  then show "\<bar>p - real c / real n * 100\<bar> \<le> 1 / 200 + 1 / 10 ^ 13" by (simp only: t_def)
qed

text \<open>Evaluation: zero is a float, so no binade need be searched for it.\<close>

lemma float64_nearest_code [code]:
  "float64_nearest x =
     (if x = 0 then 0 else (let ulp = binade x / 2 ^ 52 in of_int (rint (x / ulp)) * ulp))"
proof (cases "x = 0")
  case True
  have "float64_nearest (of_nat 0) = of_nat 0" by (rule float64_nearest_of_nat) simp
  then show ?thesis using True by simp
next
  case False
  then show ?thesis by (simp only: float64_nearest_def if_False)
qed

text \<open>The bound \<open>2 ^ 1024\<close> written out, for evaluation.\<close>

lemma float64_code [code]:
  "float64 x =
     (let y = float64_nearest x
      in if \<bar>y\<bar> < 179769313486231590772930519078902473361797697894230657273430081157732675805500963132708477322407536021120113879871393357658789768814416622492847430639474124377767893424865485276302219601246094119453082952085005768838150682342462881473913110540827237163350510684586298239947245938479716304835356329624224137216 then Some y else None)"
proof -
  have "(2::real) ^ 1024 = 179769313486231590772930519078902473361797697894230657273430081157732675805500963132708477322407536021120113879871393357658789768814416622492847430639474124377767893424865485276302219601246094119453082952085005768838150682342462881473913110540827237163350510684586298239947245938479716304835356329624224137216"
    by simp
  then show ?thesis unfolding float64_def by (simp only:)
qed

section \<open>Lemmas: query results and aggregate rows\<close>

lemma sql_rows_all_ok:
  "\<forall>x \<in> set xs. \<exists>v. f x = Inr v \<and> Q x v \<Longrightarrow>
     \<exists>vs. sql_rows (map f xs) = Inr vs \<and> list_all2 Q xs vs"
proof (induction xs)
  case Nil
  then show ?case by simp
next
  case (Cons x xs)
  then obtain v where v: "f x = Inr v" "Q x v" by auto
  from Cons obtain vs where vs: "sql_rows (map f xs) = Inr vs" "list_all2 Q xs vs" by auto
  show ?case using v vs by simp
qed

lemma list_all2_key_map: "list_all2 (\<lambda>k row. f row = k \<and> R k row) ks rows \<Longrightarrow> map f rows = ks"
  by (induction ks rows rule: list_all2_induct) simp_all

lemma list_all2_rows: "list_all2 Q ks rows \<Longrightarrow> row \<in> set rows \<Longrightarrow> \<exists>k \<in> set ks. Q k row"
  by (induction ks rows rule: list_all2_induct) auto

lemma segment_aggregate_fields:
  "customer_segment (segment_aggregate k g) = k"
  "customer_count (segment_aggregate k g) = length g"
  "churned_customers (segment_aggregate k g) = length (filter (\<lambda>r. Churn r = ''Yes'') g)"
  "churn_rate (segment_aggregate k g) =
     churn_rate_column (length (filter (\<lambda>r. Churn r = ''Yes'') g)) (length g)"
  by (simp_all add: segment_aggregate_def Let_def)

lemma customer_segmentation_rows:
  "customer_segmentation df = Inr rows \<longleftrightarrow>
     df \<noteq> [] \<and>
     rows = map (\<lambda>k. segment_aggregate k (get_group create_segments df k))
              (groupby_keys create_segments df)"
  by (auto simp add: customer_segmentation_def)

lemma customer_segmentation_keys:
  "customer_segmentation df = Inr rows \<Longrightarrow>
     map customer_segment rows = groupby_keys create_segments df"
  by (simp add: customer_segmentation_rows segment_aggregate_fields comp_def)

lemma customer_segmentation_row:
  assumes "customer_segmentation df = Inr rows" and "row \<in> set rows"
  shows "\<exists>k \<in> create_segments ` set df.
           row = segment_aggregate k (get_group create_segments df k)"
  using assms by (auto simp add: customer_segmentation_rows set_groupby_keys)

lemma churn_summary_aggregate_nonempty:
  assumes "g \<noteq> []"
  shows "\<exists>row. churn_summary_aggregate k g = Inr row \<and>
           (summary_group row = k \<and>
            summary_customer_count row = length g \<and>
            summary_churned_customers row = length (filter (\<lambda>r. Churn r = ''Yes'') g) \<and>
            churn_rate_percent row =
              sql_round 2 (real (length (filter (\<lambda>r. Churn r = ''Yes'') g)) * 100 / real (length g)))"
  using assms by (simp add: churn_summary_aggregate_def sql_div_def Let_def)

lemma churn_summary_rows:
  "\<exists>rows. churn_summary df = Inr rows \<and>
     list_all2 (\<lambda>k row. summary_group row = k \<and>
            (summary_customer_count row = length (get_group churn_summary_key df k) \<and>
            summary_churned_customers row =
              length (filter (\<lambda>r. Churn r = ''Yes'') (get_group churn_summary_key df k)) \<and>
            churn_rate_percent row =
              sql_round 2 (real (length (filter (\<lambda>r. Churn r = ''Yes'') (get_group churn_summary_key df k))) * 100
                 / real (length (get_group churn_summary_key df k)))))
       (remdups (map churn_summary_key df)) rows"
  unfolding churn_summary_def
proof (rule sql_rows_all_ok, rule ballI)
  fix k assume "k \<in> set (remdups (map churn_summary_key df))"
  then have "get_group churn_summary_key df k \<noteq> []"
    by (simp add: get_group_nonempty)
  then show "\<exists>v. churn_summary_aggregate k (get_group churn_summary_key df k) = Inr v \<and>
      (summary_group v = k \<and>
            (summary_customer_count v = length (get_group churn_summary_key df k) \<and>
            summary_churned_customers v =
              length (filter (\<lambda>r. Churn r = ''Yes'') (get_group churn_summary_key df k)) \<and>
            churn_rate_percent v =
              sql_round 2 (real (length (filter (\<lambda>r. Churn r = ''Yes'') (get_group churn_summary_key df k))) * 100
                 / real (length (get_group churn_summary_key df k)))))"
    by (rule churn_summary_aggregate_nonempty)
qed

lemma revenue_aggregate_fields:
  "revenue_segment (revenue_aggregate k g) = k"
  "segment_monthly_revenue_lost (revenue_aggregate k g) = np_round 2 (sum_list (map MonthlyCharges g))"
  "segment_lifetime_value_lost (revenue_aggregate k g) =
     np_round 2 (sum_list (map estimated_lifetime_value g))"
  "segment_annual_revenue_lost (revenue_aggregate k g) =
     np_round 2 (sum_list (map MonthlyCharges g)) * 12"
  by (simp_all add: revenue_aggregate_def Let_def)

lemma revenue_by_segment_row:
  assumes "row \<in> set (revenue_by_segment (revenue_impact_analysis df))"
  shows "row = revenue_aggregate (revenue_segment row)
           (get_group create_segments (filter (\<lambda>r. Churn r = ''Yes'') df) (revenue_segment row))"
  using assms by (auto simp add: revenue_impact_analysis_def Let_def revenue_aggregate_fields)

lemma sql_rows_Inr:
  "sql_rows (map f xs) = Inr vs \<Longrightarrow> list_all2 (\<lambda>x v. f x = Inr v) xs vs"
proof (induction xs arbitrary: vs)
  case Nil
  then show ?case by simp
next
  case (Cons x xs)
  then show ?case by (auto split: sum.splits)
qed

lemma churn_revenue_aggregate_nonempty:
  assumes "g \<noteq> []"
  shows "\<exists>row. churn_revenue_aggregate k g = Inr row \<and>
           (cte_group row = k \<and>
            cte_monthly_revenue_lost row = sql_round 2 (sum_list (map MonthlyCharges g)) \<and>
            cte_annual_revenue_lost row = sql_round 2 (sum_list (map MonthlyCharges g) * 12))"
  using assms by (simp add: churn_revenue_aggregate_def sql_div_def)

lemma churn_revenue_rows:
  "\<exists>cte. churn_revenue df = Inr cte \<and>
     list_all2 (\<lambda>k row. cte_group row = k \<and>
        cte_monthly_revenue_lost row =
          sql_round 2 (sum_list (map MonthlyCharges
             (get_group revenue_key (filter (\<lambda>r. Churn r = ''Yes'') df) k))) \<and>
        cte_annual_revenue_lost row =
          sql_round 2 (sum_list (map MonthlyCharges
             (get_group revenue_key (filter (\<lambda>r. Churn r = ''Yes'') df) k)) * 12))
       (remdups (map revenue_key (filter (\<lambda>r. Churn r = ''Yes'') df))) cte"
  unfolding churn_revenue_def Let_def
proof (rule sql_rows_all_ok, rule ballI)
  fix k assume "k \<in> set (remdups (map revenue_key (filter (\<lambda>r. Churn r = ''Yes'') df)))"
  then have "get_group revenue_key (filter (\<lambda>r. Churn r = ''Yes'') df) k \<noteq> []"
    by (simp add: get_group_nonempty)
  then show "\<exists>v. churn_revenue_aggregate k (get_group revenue_key (filter (\<lambda>r. Churn r = ''Yes'') df) k) = Inr v \<and>
      (cte_group v = k \<and>
        cte_monthly_revenue_lost v =
          sql_round 2 (sum_list (map MonthlyCharges
             (get_group revenue_key (filter (\<lambda>r. Churn r = ''Yes'') df) k))) \<and>
        cte_annual_revenue_lost v =
          sql_round 2 (sum_list (map MonthlyCharges
             (get_group revenue_key (filter (\<lambda>r. Churn r = ''Yes'') df) k)) * 12))"
    by (rule churn_revenue_aggregate_nonempty)
qed

lemma sql_revenue_select_Inr:
  assumes "sql_revenue_select t row = Inr v"
  shows "sql_annual_revenue_lost v = cte_annual_revenue_lost row \<and>
         sql_monthly_revenue_lost v = cte_monthly_revenue_lost row \<and>
         revenue_loss_percentage v = sql_round 2 (cte_annual_revenue_lost row / t * 100)"
  using assms by (auto simp add: sql_revenue_select_def sql_div_def split: if_splits)

lemma sum_list_insort_key:
  fixes f :: "'a \<Rightarrow> real"
  shows "sum_list (map f (insort_key key x xs)) = f x + sum_list (map f xs)"
  by (induction xs) simp_all

lemma sum_list_sort_key:
  fixes f :: "'a \<Rightarrow> real"
  shows "sum_list (map f (sort_key key xs)) = sum_list (map f xs)"
  by (induction xs) (simp_all add: sum_list_insort_key)

lemma selected_annual:
  "list_all2 (\<lambda>x v. sql_revenue_select t x = Inr v) cte rows \<Longrightarrow>
     map sql_annual_revenue_lost rows = map cte_annual_revenue_lost cte"
  by (induction cte rows rule: list_all2_induct) (simp_all add: sql_revenue_select_Inr)

lemma sql_revenue_by_segment_share:
  assumes "sql_revenue_by_segment df = Inr rows" and "row \<in> set rows"
  shows "revenue_loss_percentage row =
           sql_round 2 (sql_annual_revenue_lost row / sum_list (map sql_annual_revenue_lost rows) * 100)"
proof -
  from assms(1) obtain cte rows0 where cte: "churn_revenue df = Inr cte"
    and rows0: "sql_rows (map (sql_revenue_select (sum_list (map cte_annual_revenue_lost cte))) cte) = Inr rows0"
    and rows: "rows = sort_key (\<lambda>r. - sql_annual_revenue_lost r) rows0"
    by (auto simp add: sql_revenue_by_segment_def split: sum.splits)
  define t where "t = sum_list (map cte_annual_revenue_lost cte)"
  have all2: "list_all2 (\<lambda>x v. sql_revenue_select t x = Inr v) cte rows0"
    using rows0 unfolding t_def by (rule sql_rows_Inr)
  have "sum_list (map sql_annual_revenue_lost rows) = sum_list (map sql_annual_revenue_lost rows0)"
    unfolding rows by (rule sum_list_sort_key)
  also have "\<dots> = t"
    unfolding t_def using selected_annual [OF all2] by simp
  finally have total: "sum_list (map sql_annual_revenue_lost rows) = t" .
  have "row \<in> set rows0" using assms(2) rows by simp
  from list_all2_rows [OF all2 this] obtain x where "sql_revenue_select t x = Inr row" by blast
  then show ?thesis using sql_revenue_select_Inr [of t x row] total by simp
qed

lemma revenue_by_segment_fields:
  assumes "row \<in> set (revenue_by_segment (revenue_impact_analysis df))"
  shows "segment_monthly_revenue_lost row =
        np_round 2 (sum_list (map MonthlyCharges
          (get_group create_segments (filter (\<lambda>r. Churn r = ''Yes'') df) (revenue_segment row))))"
    and "segment_lifetime_value_lost row =
        np_round 2 (sum_list (map (\<lambda>r. MonthlyCharges r * of_int (tenure r))
          (get_group create_segments (filter (\<lambda>r. Churn r = ''Yes'') df) (revenue_segment row))))"
    and "segment_annual_revenue_lost row =
        np_round 2 (sum_list (map MonthlyCharges
          (get_group create_segments (filter (\<lambda>r. Churn r = ''Yes'') df) (revenue_segment row)))) * 12"
proof -
  define g where "g = get_group create_segments (filter (\<lambda>r. Churn r = ''Yes'') df) (revenue_segment row)"
  have elv: "estimated_lifetime_value = (\<lambda>r. MonthlyCharges r * of_int (tenure r))"
    by (rule ext) (simp add: estimated_lifetime_value_def)
  have eq: "row = revenue_aggregate (revenue_segment row) g"
    unfolding g_def using assms by (rule revenue_by_segment_row)
  show "segment_monthly_revenue_lost row = np_round 2 (sum_list (map MonthlyCharges g))"
    using arg_cong [OF eq, of segment_monthly_revenue_lost]
    by (simp only: revenue_aggregate_fields)
  show "segment_lifetime_value_lost row =
        np_round 2 (sum_list (map (\<lambda>r. MonthlyCharges r * of_int (tenure r)) g))"
    using arg_cong [OF eq, of segment_lifetime_value_lost]
    by (simp only: revenue_aggregate_fields elv)
  show "segment_annual_revenue_lost row = np_round 2 (sum_list (map MonthlyCharges g)) * 12"
    using arg_cong [OF eq, of segment_annual_revenue_lost]
    by (simp only: revenue_aggregate_fields)
qed

lemma assign_column_mem: "c \<in> set (assign_column c' cols) \<longleftrightarrow> c = c' \<or> c \<in> set cols"
  by (auto simp add: assign_column_def)

section \<open>Lemmas: tenure bins\<close>

lemma int64_true_divide_zero: "int64_true_divide c 0 = None"
proof -
  have "float64 (of_nat 0) = Some (of_nat 0)" by (rule float64_of_nat) simp
  then show ?thesis by (simp add: int64_true_divide_def split: option.splits)
qed

lemma tenure_churn_pandas2:
  "df \<noteq> [] \<Longrightarrow> tenure_churn Pandas2 df =
     Some (map (\<lambda>b. \<lparr>tenure_bin = b,
                tenure_churn_rate =
                  Option.bind
                    (int64_true_divide
                       (length (filter (\<lambda>r. Churn r = ''Yes'')
                          (filter (\<lambda>r. cut [0, 12, 24, 36, 72] (tenure r) = Some b) df)))
                       (length (filter (\<lambda>r. cut [0, 12, 24, 36, 72] (tenure r) = Some b) df)))
                    (\<lambda>q. float64 (q * 100))\<rparr>)
       (intervals [0, 12, 24, 36, 72]))"
  by (simp add: tenure_churn_def Let_def)

lemma tenure_churn_pandas3:
  "df \<noteq> [] \<Longrightarrow> tenure_churn Pandas3 df =
     Some (map (\<lambda>b. \<lparr>tenure_bin = b,
                tenure_churn_rate =
                  Option.bind
                    (int64_true_divide
                       (length (filter (\<lambda>r. Churn r = ''Yes'')
                          (filter (\<lambda>r. cut [0, 12, 24, 36, 72] (tenure r) = Some b) df)))
                       (length (filter (\<lambda>r. cut [0, 12, 24, 36, 72] (tenure r) = Some b) df)))
                    (\<lambda>q. float64 (q * 100))\<rparr>)
       (filter (\<lambda>b. \<exists>r \<in> set df. cut [0, 12, 24, 36, 72] (tenure r) = Some b)
          (intervals [0, 12, 24, 36, 72])))"
  by (simp add: tenure_churn_def Let_def)

lemma tenure_churn_empty: "tenure_churn version [] = None"
  by (simp add: tenure_churn_def)

lemma tenure_churn_returns: "df \<noteq> [] \<Longrightarrow> \<exists>rows. tenure_churn version df = Some rows"
  by (simp add: tenure_churn_def Let_def)

lemma tenure_churn_frame: "tenure_churn version df = Some rows \<Longrightarrow> df \<noteq> []"
  by (auto simp add: tenure_churn_def)

lemma tenure_churn_bins:
  "tenure_churn Pandas2 df = Some rows \<Longrightarrow> map tenure_bin rows = intervals [0, 12, 24, 36, 72]"
  using tenure_churn_pandas2 [OF tenure_churn_frame, of Pandas2 df rows]
  by (auto simp add: comp_def)

lemma tenure_churn_empty_bin:
  assumes "tenure_churn Pandas2 df = Some rows" and "row \<in> set rows"
    and "\<forall>r \<in> set df. cut [0, 12, 24, 36, 72] (tenure r) \<noteq> Some (tenure_bin row)"
  shows "tenure_churn_rate row = None"
proof -
  from assms(1,2) obtain b where row: "row = \<lparr>tenure_bin = b,
                tenure_churn_rate =
                  Option.bind
                    (int64_true_divide
                       (length (filter (\<lambda>r. Churn r = ''Yes'')
                          (filter (\<lambda>r. cut [0, 12, 24, 36, 72] (tenure r) = Some b) df)))
                       (length (filter (\<lambda>r. cut [0, 12, 24, 36, 72] (tenure r) = Some b) df)))
                    (\<lambda>q. float64 (q * 100))\<rparr>"
    using tenure_churn_pandas2 [OF tenure_churn_frame, of Pandas2 df rows] by auto
  then have b: "tenure_bin row = b" by simp
  have "filter (\<lambda>r. cut [0, 12, 24, 36, 72] (tenure r) = Some b) df = []"
    using assms(3) b by (simp add: filter_empty_conv)
  then show ?thesis by (subst row) (simp add: int64_true_divide_zero)
qed

lemma tenure_churn_observed:
  assumes "tenure_churn Pandas3 df = Some rows" and "row \<in> set rows"
  shows "\<exists>r \<in> set df. cut [0, 12, 24, 36, 72] (tenure r) = Some (tenure_bin row)"
    and "length df < 2 ^ 53 \<Longrightarrow> tenure_churn_rate row \<noteq> None"
proof -
  from assms obtain b where row: "row = \<lparr>tenure_bin = b,
                tenure_churn_rate =
                  Option.bind
                    (int64_true_divide
                       (length (filter (\<lambda>r. Churn r = ''Yes'')
                          (filter (\<lambda>r. cut [0, 12, 24, 36, 72] (tenure r) = Some b) df)))
                       (length (filter (\<lambda>r. cut [0, 12, 24, 36, 72] (tenure r) = Some b) df)))
                    (\<lambda>q. float64 (q * 100))\<rparr>"
    and occurs: "\<exists>r \<in> set df. cut [0, 12, 24, 36, 72] (tenure r) = Some b"
    using tenure_churn_pandas3 [OF tenure_churn_frame, of Pandas3 df rows] by auto
  have b: "tenure_bin row = b" by (subst row) simp
  show "\<exists>r \<in> set df. cut [0, 12, 24, 36, 72] (tenure r) = Some (tenure_bin row)"
    using occurs b by simp
  define x where "x = filter (\<lambda>r. cut [0, 12, 24, 36, 72] (tenure r) = Some b) df"
  have pos: "0 < length x"
    using occurs by (auto simp add: x_def filter_empty_conv)
  have rate: "tenure_churn_rate row =
      Option.bind (int64_true_divide (length (filter (\<lambda>r. Churn r = ''Yes'') x)) (length x))
        (\<lambda>q. float64 (q * 100))"
    by (subst row) (simp add: x_def)
  show "tenure_churn_rate row \<noteq> None" if small: "length df < 2 ^ 53"
  proof -
    have "length x \<le> length df" by (simp add: x_def)
    then have "length x < 2 ^ 53" using small by simp
    moreover have "length (filter (\<lambda>r. Churn r = ''Yes'') x) \<le> length x" by simp
    ultimately show ?thesis
      using percent_chain(1) [of "length (filter (\<lambda>r. Churn r = ''Yes'') x)" "length x"] pos
      by (simp add: rate)
  qed
qed

section \<open>Lifetime-value proxies: properties\<close>

text \<open>
  C1 (as the code has it). Two different proxies exist. The \<open>clv\<close> column of the view
  \<open>customer_segments\<close> (the same \<open>CASE\<close> is in \<open>analyze_clv\<close>) is the total charge
  when that is greater than 0 and monthly charge times tenure otherwise. The revenue
  estimators, the in-memory \<open>estimated_lifetime_value\<close> and the summand of
  \<open>lifetime_value_lost\<close> in the revenue query alike, are monthly charge times tenure
  for every record, whatever its total charge. The two proxies agree on a record exactly
  when its total charge is not greater than 0 or equals monthly charge times tenure.
\<close>

theorem lifetime_value_proxies:
  "TotalCharges r = Num t \<Longrightarrow>
     (0 < t \<longrightarrow> sql_clv r = t) \<and>
     (\<not> 0 < t \<longrightarrow> sql_clv r = MonthlyCharges r * of_int (tenure r)) \<and>
     estimated_lifetime_value r = MonthlyCharges r * of_int (tenure r) \<and>
     (Churn r = ''Yes'' \<longrightarrow> sql_lifetime_value_term r = estimated_lifetime_value r) \<and>
     (estimated_lifetime_value r = sql_clv r \<longleftrightarrow>
        \<not> 0 < t \<or> t = MonthlyCharges r * of_int (tenure r))"
  by (auto simp add: sql_clv_def estimated_lifetime_value_def sql_lifetime_value_term_def)

theorem lifetime_value_proxies_witness:
  "sql_clv (customer0\<lparr>tenure := 3, MonthlyCharges := 50, TotalCharges := Num 100, Churn := ''Yes''\<rparr>) = 100 \<and>
   sql_clv (customer0\<lparr>tenure := 3, MonthlyCharges := 50, TotalCharges := Num 0, Churn := ''Yes''\<rparr>) = 150 \<and>
   estimated_lifetime_value
     (customer0\<lparr>tenure := 3, MonthlyCharges := 50, TotalCharges := Num 0, Churn := ''Yes''\<rparr>) = 150 \<and>
   sql_lifetime_value_term
     (customer0\<lparr>tenure := 3, MonthlyCharges := 50, TotalCharges := Num 0, Churn := ''Yes''\<rparr>) = 150"
  using lifetime_value_proxies
          [of "customer0\<lparr>tenure := 3, MonthlyCharges := 50, TotalCharges := Num 100, Churn := ''Yes''\<rparr>" 100]
        lifetime_value_proxies
          [of "customer0\<lparr>tenure := 3, MonthlyCharges := 50, TotalCharges := Num 0, Churn := ''Yes''\<rparr>" 0]
  by (simp add: customer0_def)

text \<open>A churned record with total charge 100, monthly charge 50 and tenure 3: the
  total charge is greater than 0, yet both revenue estimators give 150; only \<open>clv\<close>
  gives 100.\<close>

theorem lifetime_value_proxy_counterexample:
  "TotalCharges (customer0\<lparr>tenure := 3, MonthlyCharges := 50, TotalCharges := Num 100, Churn := ''Yes''\<rparr>)
     = Num 100 \<and>
   (0::real) < 100 \<and>
   estimated_lifetime_value
     (customer0\<lparr>tenure := 3, MonthlyCharges := 50, TotalCharges := Num 100, Churn := ''Yes''\<rparr>) = 150 \<and>
   sql_lifetime_value_term
     (customer0\<lparr>tenure := 3, MonthlyCharges := 50, TotalCharges := Num 100, Churn := ''Yes''\<rparr>) = 150 \<and>
   sql_clv
     (customer0\<lparr>tenure := 3, MonthlyCharges := 50, TotalCharges := Num 100, Churn := ''Yes''\<rparr>) = 100"
  by (simp add: customer0_def estimated_lifetime_value_def sql_lifetime_value_term_def sql_clv_def)

section \<open>Segmenter: properties\<close>

text \<open>
  C2. Every record gets exactly one of the five segment labels, by the decision table
  read top to bottom: month-to-month with tenure below 12 (tenure 0 included) is
  'High Risk - New Month-to-Month', month-to-month with tenure at least 12 is
  'Medium Risk - Established Month-to-Month', one-year with tenure below 6 is
  'Medium Risk - New Annual', two-year with any tenure is 'Low Risk - Long-term', and
  every other record (one-year with tenure at least 6 included) is
  'Stable - Established Annual'. The SQL view computes the same label, and the five
  labels are pairwise different, so the rows of the table exclude each other.
\<close>

theorem create_segments_decision_table:
  "(Contract r = ''Month-to-month'' \<and> tenure r < 12 \<longrightarrow>
      create_segments r = ''High Risk - New Month-to-Month'') \<and>
   (Contract r = ''Month-to-month'' \<and> tenure r \<ge> 12 \<longrightarrow>
      create_segments r = ''Medium Risk - Established Month-to-Month'') \<and>
   (Contract r = ''One year'' \<and> tenure r < 6 \<longrightarrow>
      create_segments r = ''Medium Risk - New Annual'') \<and>
   (Contract r = ''Two year'' \<longrightarrow>
      create_segments r = ''Low Risk - Long-term'') \<and>
   (Contract r \<noteq> ''Month-to-month'' \<and> Contract r \<noteq> ''Two year'' \<and>
    \<not> (Contract r = ''One year'' \<and> tenure r < 6) \<longrightarrow>
      create_segments r = ''Stable - Established Annual'') \<and>
   (Contract r = ''One year'' \<and> tenure r \<ge> 6 \<longrightarrow>
      create_segments r = ''Stable - Established Annual'') \<and>
   sql_customer_segment r = create_segments r \<and>
   create_segments r \<in> set segment_labels \<and>
   distinct segment_labels"
  by (simp add: create_segments_def sql_customer_segment_def segment_labels_def)

theorem create_segments_decision_table_witness:
  "create_segments (customer0\<lparr>Contract := ''Month-to-month'', tenure := 0\<rparr>)
     = ''High Risk - New Month-to-Month'' \<and>
   create_segments (customer0\<lparr>Contract := ''Month-to-month'', tenure := 11\<rparr>)
     = ''High Risk - New Month-to-Month'' \<and>
   create_segments (customer0\<lparr>Contract := ''Month-to-month'', tenure := 12\<rparr>)
     = ''Medium Risk - Established Month-to-Month'' \<and>
   create_segments (customer0\<lparr>Contract := ''One year'', tenure := 5\<rparr>)
     = ''Medium Risk - New Annual'' \<and>
   create_segments (customer0\<lparr>Contract := ''Two year'', tenure := 40\<rparr>)
     = ''Low Risk - Long-term'' \<and>
   create_segments (customer0\<lparr>Contract := ''One year'', tenure := 6\<rparr>)
     = ''Stable - Established Annual'' \<and>
   create_segments (customer0\<lparr>Contract := ''Annual'', tenure := 3\<rparr>)
     = ''Stable - Established Annual''"
  using create_segments_decision_table
          [of "customer0\<lparr>Contract := ''Month-to-month'', tenure := 0\<rparr>"]
        create_segments_decision_table
          [of "customer0\<lparr>Contract := ''Month-to-month'', tenure := 11\<rparr>"]
        create_segments_decision_table
          [of "customer0\<lparr>Contract := ''Month-to-month'', tenure := 12\<rparr>"]
        create_segments_decision_table
          [of "customer0\<lparr>Contract := ''One year'', tenure := 5\<rparr>"]
        create_segments_decision_table
          [of "customer0\<lparr>Contract := ''Two year'', tenure := 40\<rparr>"]
        create_segments_decision_table
          [of "customer0\<lparr>Contract := ''One year'', tenure := 6\<rparr>"]
        create_segments_decision_table
          [of "customer0\<lparr>Contract := ''Annual'', tenure := 3\<rparr>"]
  by (simp add: customer0_def)

section \<open>Aggregator: properties\<close>




section \<open>Revenue estimator: properties\<close>

text \<open>
  C4 (as the code has it). The three overall figures of the in-memory estimator are
  accumulated without rounding: the monthly loss is the sum of the monthly charges of
  the churned records, the annual loss is 12 times that sum, the lifetime loss is the
  sum of monthly charge times tenure. The per-segment table is rounded to 2 decimal
  places before its annual column is derived, so that a segment's annual loss is 12
  times its rounded monthly sum. In the SQL variant each per-group figure is rounded to
  2 decimal places from the unrounded group sum (the annual one from 12 times that sum),
  and the share percentage is computed from the rounded annual figures and their sum.
\<close>

theorem revenue_figures_rounding:
  "monthly_revenue_lost (revenue_impact_analysis df) =
     sum_list (map MonthlyCharges (filter (\<lambda>r. Churn r = ''Yes'') df)) \<and>
   annual_revenue_lost (revenue_impact_analysis df) =
     sum_list (map MonthlyCharges (filter (\<lambda>r. Churn r = ''Yes'') df)) * 12 \<and>
   lifetime_value_lost (revenue_impact_analysis df) =
     sum_list (map (\<lambda>r. MonthlyCharges r * of_int (tenure r)) (filter (\<lambda>r. Churn r = ''Yes'') df)) \<and>
   (\<forall>row \<in> set (revenue_by_segment (revenue_impact_analysis df)).
      segment_monthly_revenue_lost row =
        np_round 2 (sum_list (map MonthlyCharges
          (get_group create_segments (filter (\<lambda>r. Churn r = ''Yes'') df) (revenue_segment row)))) \<and>
      segment_lifetime_value_lost row =
        np_round 2 (sum_list (map (\<lambda>r. MonthlyCharges r * of_int (tenure r))
          (get_group create_segments (filter (\<lambda>r. Churn r = ''Yes'') df) (revenue_segment row)))) \<and>
      segment_annual_revenue_lost row =
        np_round 2 (sum_list (map MonthlyCharges
          (get_group create_segments (filter (\<lambda>r. Churn r = ''Yes'') df) (revenue_segment row)))) * 12) \<and>
   (\<exists>cte. churn_revenue df = Inr cte \<and>
      (\<forall>row \<in> set cte.
         cte_monthly_revenue_lost row =
           sql_round 2 (sum_list (map MonthlyCharges
             (get_group revenue_key (filter (\<lambda>r. Churn r = ''Yes'') df) (cte_group row)))) \<and>
         cte_annual_revenue_lost row =
           sql_round 2 (sum_list (map MonthlyCharges
             (get_group revenue_key (filter (\<lambda>r. Churn r = ''Yes'') df) (cte_group row))) * 12))) \<and>
   (\<forall>rows. sql_revenue_by_segment df = Inr rows \<longrightarrow>
      (\<forall>row \<in> set rows.
         revenue_loss_percentage row =
           sql_round 2 (sql_annual_revenue_lost row / sum_list (map sql_annual_revenue_lost rows) * 100)))"
proof -
  have elv: "estimated_lifetime_value = (\<lambda>r. MonthlyCharges r * of_int (tenure r))"
    by (rule ext) (simp add: estimated_lifetime_value_def)
  have overall: "monthly_revenue_lost (revenue_impact_analysis df) =
     sum_list (map MonthlyCharges (filter (\<lambda>r. Churn r = ''Yes'') df))"
   "annual_revenue_lost (revenue_impact_analysis df) =
     sum_list (map MonthlyCharges (filter (\<lambda>r. Churn r = ''Yes'') df)) * 12"
   "lifetime_value_lost (revenue_impact_analysis df) =
     sum_list (map (\<lambda>r. MonthlyCharges r * of_int (tenure r)) (filter (\<lambda>r. Churn r = ''Yes'') df))"
    by (simp_all add: revenue_impact_analysis_def Let_def elv)
  have seg: "\<forall>row \<in> set (revenue_by_segment (revenue_impact_analysis df)).
      segment_monthly_revenue_lost row =
        np_round 2 (sum_list (map MonthlyCharges
          (get_group create_segments (filter (\<lambda>r. Churn r = ''Yes'') df) (revenue_segment row)))) \<and>
      segment_lifetime_value_lost row =
        np_round 2 (sum_list (map (\<lambda>r. MonthlyCharges r * of_int (tenure r))
          (get_group create_segments (filter (\<lambda>r. Churn r = ''Yes'') df) (revenue_segment row)))) \<and>
      segment_annual_revenue_lost row =
        np_round 2 (sum_list (map MonthlyCharges
          (get_group create_segments (filter (\<lambda>r. Churn r = ''Yes'') df) (revenue_segment row)))) * 12"
    by (intro ballI conjI revenue_by_segment_fields)
  obtain cte where cte: "churn_revenue df = Inr cte"
    and all2: "list_all2 (\<lambda>k row. cte_group row = k \<and>
        cte_monthly_revenue_lost row =
          sql_round 2 (sum_list (map MonthlyCharges
             (get_group revenue_key (filter (\<lambda>r. Churn r = ''Yes'') df) k))) \<and>
        cte_annual_revenue_lost row =
          sql_round 2 (sum_list (map MonthlyCharges
             (get_group revenue_key (filter (\<lambda>r. Churn r = ''Yes'') df) k)) * 12))
       (remdups (map revenue_key (filter (\<lambda>r. Churn r = ''Yes'') df))) cte"
    using churn_revenue_rows by blast
  have ctemem: "\<forall>row \<in> set cte.
         cte_monthly_revenue_lost row =
           sql_round 2 (sum_list (map MonthlyCharges
             (get_group revenue_key (filter (\<lambda>r. Churn r = ''Yes'') df) (cte_group row)))) \<and>
         cte_annual_revenue_lost row =
           sql_round 2 (sum_list (map MonthlyCharges
             (get_group revenue_key (filter (\<lambda>r. Churn r = ''Yes'') df) (cte_group row))) * 12)"
  proof
    fix row assume r: "row \<in> set cte"
    from list_all2_rows [OF all2 r] show "cte_monthly_revenue_lost row =
           sql_round 2 (sum_list (map MonthlyCharges
             (get_group revenue_key (filter (\<lambda>r. Churn r = ''Yes'') df) (cte_group row)))) \<and>
         cte_annual_revenue_lost row =
           sql_round 2 (sum_list (map MonthlyCharges
             (get_group revenue_key (filter (\<lambda>r. Churn r = ''Yes'') df) (cte_group row))) * 12)"
      by auto
  qed
  from cte ctemem have sqlcte: "\<exists>cte. churn_revenue df = Inr cte \<and>
      (\<forall>row \<in> set cte.
         cte_monthly_revenue_lost row =
           sql_round 2 (sum_list (map MonthlyCharges
             (get_group revenue_key (filter (\<lambda>r. Churn r = ''Yes'') df) (cte_group row)))) \<and>
         cte_annual_revenue_lost row =
           sql_round 2 (sum_list (map MonthlyCharges
             (get_group revenue_key (filter (\<lambda>r. Churn r = ''Yes'') df) (cte_group row))) * 12))"
    by (intro exI [of _ cte] conjI)
  have share: "\<forall>rows. sql_revenue_by_segment df = Inr rows \<longrightarrow>
      (\<forall>row \<in> set rows.
         revenue_loss_percentage row =
           sql_round 2 (sql_annual_revenue_lost row / sum_list (map sql_annual_revenue_lost rows) * 100))"
    using sql_revenue_by_segment_share by blast
  from overall seg sqlcte share show ?thesis by (intro conjI)
qed

theorem revenue_figures_rounding_witness:
  "annual_revenue_lost (revenue_impact_analysis
     [customer0\<lparr>Contract := ''Month-to-month'', tenure := 5, MonthlyCharges := 50, Churn := ''Yes''\<rparr>,
      customer0\<lparr>Contract := ''Two year'', tenure := 40, MonthlyCharges := 80\<rparr>,
      customer0\<lparr>Contract := ''One year'', tenure := 3, MonthlyCharges := 60, Churn := ''Yes''\<rparr>]) = 1320 \<and>
   map segment_annual_revenue_lost (revenue_by_segment (revenue_impact_analysis
     [customer0\<lparr>Contract := ''Month-to-month'', tenure := 5, MonthlyCharges := 50, Churn := ''Yes''\<rparr>,
      customer0\<lparr>Contract := ''Two year'', tenure := 40, MonthlyCharges := 80\<rparr>,
      customer0\<lparr>Contract := ''One year'', tenure := 3, MonthlyCharges := 60, Churn := ''Yes''\<rparr>]))
     = [600, 720] \<and>
   (\<exists>rows. sql_revenue_by_segment
     [customer0\<lparr>Contract := ''Month-to-month'', tenure := 5, MonthlyCharges := 50, Churn := ''Yes''\<rparr>,
      customer0\<lparr>Contract := ''Two year'', tenure := 40, MonthlyCharges := 80\<rparr>,
      customer0\<lparr>Contract := ''One year'', tenure := 3, MonthlyCharges := 60, Churn := ''Yes''\<rparr>] = Inr rows \<and>
      map sql_annual_revenue_lost rows = [720, 600] \<and>
      map revenue_loss_percentage rows = [5455 / 100, 4545 / 100])"
proof -
  have mem: "revenue_impact_analysis
     [customer0\<lparr>Contract := ''Month-to-month'', tenure := 5, MonthlyCharges := 50, Churn := ''Yes''\<rparr>,
      customer0\<lparr>Contract := ''Two year'', tenure := 40, MonthlyCharges := 80\<rparr>,
      customer0\<lparr>Contract := ''One year'', tenure := 3, MonthlyCharges := 60, Churn := ''Yes''\<rparr>] =
     \<lparr>monthly_revenue_lost = 110, annual_revenue_lost = 1320, lifetime_value_lost = 430,
      revenue_by_segment =
        [\<lparr>revenue_segment = ''High Risk - New Month-to-Month'', revenue_churned_customers = 1,
           segment_monthly_revenue_lost = 50, segment_lifetime_value_lost = 250,
           segment_annual_revenue_lost = 600\<rparr>,
         \<lparr>revenue_segment = ''Medium Risk - New Annual'', revenue_churned_customers = 1,
           segment_monthly_revenue_lost = 60, segment_lifetime_value_lost = 180,
           segment_annual_revenue_lost = 720\<rparr>]\<rparr>"
    by code_simp
  have sql: "sql_revenue_by_segment
     [customer0\<lparr>Contract := ''Month-to-month'', tenure := 5, MonthlyCharges := 50, Churn := ''Yes''\<rparr>,
      customer0\<lparr>Contract := ''Two year'', tenure := 40, MonthlyCharges := 80\<rparr>,
      customer0\<lparr>Contract := ''One year'', tenure := 3, MonthlyCharges := 60, Churn := ''Yes''\<rparr>] =
     Inr [\<lparr>sql_revenue_group = (''One year'', ''DSL''), sql_churned_customers = 1,
            sql_avg_monthly_charges = 60, sql_monthly_revenue_lost = 60,
            sql_annual_revenue_lost = 720, revenue_loss_percentage = 5455 / 100\<rparr>,
          \<lparr>sql_revenue_group = (''Month-to-month'', ''DSL''), sql_churned_customers = 1,
            sql_avg_monthly_charges = 50, sql_monthly_revenue_lost = 50,
            sql_annual_revenue_lost = 600, revenue_loss_percentage = 4545 / 100\<rparr>]"
    by code_simp
  from revenue_figures_rounding
     [of "[customer0\<lparr>Contract := ''Month-to-month'', tenure := 5, MonthlyCharges := 50, Churn := ''Yes''\<rparr>,
      customer0\<lparr>Contract := ''Two year'', tenure := 40, MonthlyCharges := 80\<rparr>,
      customer0\<lparr>Contract := ''One year'', tenure := 3, MonthlyCharges := 60, Churn := ''Yes''\<rparr>]"]
  show ?thesis unfolding mem sql by simp
qed

text \<open>One churned customer with monthly charge 50.1875: the segment's monthly sum is
  rounded to 50.19 and its annual loss is 602.28, while 12 times the unrounded monthly
  sum of the segment is 602.25 (the overall annual figure).\<close>

theorem segment_annual_from_rounded_counterexample:
  "revenue_impact_analysis [customer0\<lparr>tenure := 1, MonthlyCharges := 803 / 16, Churn := ''Yes''\<rparr>] =
     \<lparr>monthly_revenue_lost = 803 / 16, annual_revenue_lost = 60225 / 100,
      lifetime_value_lost = 803 / 16,
      revenue_by_segment =
        [\<lparr>revenue_segment = ''High Risk - New Month-to-Month'', revenue_churned_customers = 1,
           segment_monthly_revenue_lost = 5019 / 100, segment_lifetime_value_lost = 5019 / 100,
           segment_annual_revenue_lost = 60228 / 100\<rparr>]\<rparr> \<and>
   sum_list (map MonthlyCharges
     [customer0\<lparr>tenure := 1, MonthlyCharges := 803 / 16, Churn := ''Yes''\<rparr>]) * 12 = (60225 / 100 :: real)"
proof -
  have "revenue_impact_analysis [customer0\<lparr>tenure := 1, MonthlyCharges := 803 / 16, Churn := ''Yes''\<rparr>] =
     \<lparr>monthly_revenue_lost = 803 / 16, annual_revenue_lost = 60225 / 100,
      lifetime_value_lost = 803 / 16,
      revenue_by_segment =
        [\<lparr>revenue_segment = ''High Risk - New Month-to-Month'', revenue_churned_customers = 1,
           segment_monthly_revenue_lost = 5019 / 100, segment_lifetime_value_lost = 5019 / 100,
           segment_annual_revenue_lost = 60228 / 100\<rparr>]\<rparr>"
    by code_simp
  moreover have "sum_list (map MonthlyCharges
     [customer0\<lparr>tenure := 1, MonthlyCharges := 803 / 16, Churn := ''Yes''\<rparr>]) * 12 = (60225 / 100 :: real)"
    by simp
  ultimately show ?thesis by (rule conjI)
qed

section \<open>Churn risk: properties\<close>

text \<open>
  C5 (as the code has it). Only the SQL variant computes a churn-risk field: the view
  \<open>customer_segments\<close> has the column \<open>churn_risk\<close> beside \<open>customer_segment\<close>, with
  a month-to-month record 'High Risk' exactly when tenure is below 12, 'Medium Risk'
  exactly when tenure is at least 12 and below 24 and 'Low Risk' from 24 on, a one-year
  record with tenure below 6 'Medium Risk', and every other record 'Low Risk'. The
  in-memory analysis adds \<open>customer_segment\<close> to its frame but no churn-risk column:
  its frame has a column \<open>churn_risk\<close> only if the input file already had one.
\<close>

theorem churn_risk_table:
  "(Contract r = ''Month-to-month'' \<longrightarrow>
      (sql_churn_risk r = ''High Risk'' \<longleftrightarrow> tenure r < 12) \<and>
      (sql_churn_risk r = ''Medium Risk'' \<longleftrightarrow> 12 \<le> tenure r \<and> tenure r < 24) \<and>
      (sql_churn_risk r = ''Low Risk'' \<longleftrightarrow> 24 \<le> tenure r)) \<and>
   (Contract r = ''One year'' \<and> tenure r < 6 \<longrightarrow> sql_churn_risk r = ''Medium Risk'') \<and>
   (Contract r \<noteq> ''Month-to-month'' \<and> \<not> (Contract r = ''One year'' \<and> tenure r < 6) \<longrightarrow>
      sql_churn_risk r = ''Low Risk'') \<and>
   sql_churn_risk r \<in> {''High Risk'', ''Medium Risk'', ''Low Risk''} \<and>
   ''churn_risk'' \<in> set customer_segments_columns \<and>
   ''customer_segment'' \<in> set customer_segments_columns \<and>
   (''churn_risk'' \<in> set (run_complete_analysis_columns cols) \<longleftrightarrow> ''churn_risk'' \<in> set cols) \<and>
   (''churn_risk'' \<in> set (revenue_impact_analysis_columns cols) \<longleftrightarrow> ''churn_risk'' \<in> set cols) \<and>
   ''customer_segment'' \<in> set (run_complete_analysis_columns cols)"
  by (auto simp add: sql_churn_risk_def customer_segments_columns_def
        run_complete_analysis_columns_def revenue_impact_analysis_columns_def assign_column_mem)

theorem churn_risk_table_witness:
  "sql_churn_risk (customer0\<lparr>Contract := ''Month-to-month'', tenure := 11\<rparr>) = ''High Risk'' \<and>
   sql_churn_risk (customer0\<lparr>Contract := ''Month-to-month'', tenure := 12\<rparr>) = ''Medium Risk'' \<and>
   sql_churn_risk (customer0\<lparr>Contract := ''Month-to-month'', tenure := 23\<rparr>) = ''Medium Risk'' \<and>
   sql_churn_risk (customer0\<lparr>Contract := ''Month-to-month'', tenure := 24\<rparr>) = ''Low Risk'' \<and>
   sql_churn_risk (customer0\<lparr>Contract := ''One year'', tenure := 5\<rparr>) = ''Medium Risk'' \<and>
   sql_churn_risk (customer0\<lparr>Contract := ''One year'', tenure := 6\<rparr>) = ''Low Risk'' \<and>
   sql_churn_risk (customer0\<lparr>Contract := ''Two year'', tenure := 1\<rparr>) = ''Low Risk''"
  using churn_risk_table [of "customer0\<lparr>Contract := ''Month-to-month'', tenure := 11\<rparr>" csv_columns]
        churn_risk_table [of "customer0\<lparr>Contract := ''Month-to-month'', tenure := 12\<rparr>" csv_columns]
        churn_risk_table [of "customer0\<lparr>Contract := ''Month-to-month'', tenure := 23\<rparr>" csv_columns]
        churn_risk_table [of "customer0\<lparr>Contract := ''Month-to-month'', tenure := 24\<rparr>" csv_columns]
        churn_risk_table [of "customer0\<lparr>Contract := ''One year'', tenure := 5\<rparr>" csv_columns]
        churn_risk_table [of "customer0\<lparr>Contract := ''One year'', tenure := 6\<rparr>" csv_columns]
        churn_risk_table [of "customer0\<lparr>Contract := ''Two year'', tenure := 1\<rparr>" csv_columns]
  by (simp add: customer0_def)

text \<open>On the columns of the input file, neither the frame after the complete in-memory
  analysis nor the frame of churned customers inside the revenue analysis has a column
  \<open>churn_risk\<close>; the view has one.\<close>

theorem churn_risk_in_memory_counterexample:
  "''churn_risk'' \<notin> set (run_complete_analysis_columns csv_columns) \<and>
   ''churn_risk'' \<notin> set (revenue_impact_analysis_columns csv_columns) \<and>
   ''churn_risk'' \<in> set customer_segments_columns"
  by (simp add: run_complete_analysis_columns_def revenue_impact_analysis_columns_def
        assign_column_mem csv_columns_def customer_segments_columns_def)

section \<open>Grouping: properties\<close>

text \<open>
  C6 (as the code has it). Computing a churn-rate ratio never raises a division error.
  Where the grouping key is a plain column (the pandas \<open>groupby\<close> of
  \<open>customer_segmentation\<close> and of every other string key, and SQL \<open>GROUP BY\<close>), a key
  with no matching record is absent from the output, so every group over which the ratio
  is computed has at least one record: the segment labels of the in-memory table are
  exactly the labels that occur, each once, and every row counts at least one customer;
  the view \<open>churn_summary\<close> always delivers its rows, one for each key combination that
  occurs. On a frame without records \<open>customer_segmentation\<close> raises \<open>TypeError\<close>, not a
  division error, and the view is empty. Where the key is a \<open>pd.cut\<close> categorical (the
  tenure bins of \<open>generate_insights_and_recommendations\<close>, computed for every frame with
  a record) the output depends on the pandas version: from version 3 on only the bins
  that occur are rows; before version 3 all four bins are rows, and the row of a bin
  without records holds NaN as its ratio, without an error.
\<close>

theorem ratio_groups_nonempty:
  "(\<forall>k \<in> set (groupby_keys key df). 0 < length (get_group key df k)) \<and>
   customer_segmentation df \<noteq> Inl ZeroDivisionError \<and>
   customer_segmentation [] = Inl TypeError \<and>
   (df \<noteq> [] \<longrightarrow>
      (\<exists>rows. customer_segmentation df = Inr rows \<and>
         (\<forall>row \<in> set rows.
            0 < customer_count row \<and>
            customer_count row = length (get_group create_segments df (customer_segment row)) \<and>
            (length df < 2 ^ 53 \<longrightarrow> churn_rate row \<noteq> None)) \<and>
         set (map customer_segment rows) = create_segments ` set df \<and>
         distinct (map customer_segment rows))) \<and>
   (\<exists>rows. churn_summary df = Inr rows \<and>
      (\<forall>row \<in> set rows.
         0 < summary_customer_count row \<and>
         summary_customer_count row = length (get_group churn_summary_key df (summary_group row))) \<and>
      set (map summary_group rows) = churn_summary_key ` set df \<and>
      distinct (map summary_group rows)) \<and>
   churn_summary [] = Inr [] \<and>
   (df \<noteq> [] \<longrightarrow>
      (\<exists>rows. tenure_churn Pandas3 df = Some rows \<and>
         (\<forall>row \<in> set rows.
            (\<exists>r \<in> set df. cut [0, 12, 24, 36, 72] (tenure r) = Some (tenure_bin row)) \<and>
            (length df < 2 ^ 53 \<longrightarrow> tenure_churn_rate row \<noteq> None)))) \<and>
   (df \<noteq> [] \<longrightarrow>
      (\<exists>rows. tenure_churn Pandas2 df = Some rows \<and>
         map tenure_bin rows = intervals [0, 12, 24, 36, 72] \<and>
         (\<forall>row \<in> set rows.
            (\<forall>r \<in> set df. cut [0, 12, 24, 36, 72] (tenure r) \<noteq> Some (tenure_bin row)) \<longrightarrow>
            tenure_churn_rate row = None)))"
proof -
  have gen: "\<forall>k \<in> set (groupby_keys key df). 0 < length (get_group key df k)"
    by (simp only: set_groupby_keys) (intro ballI length_get_group_pos)
  have noerr: "customer_segmentation df \<noteq> Inl ZeroDivisionError"
    by (simp add: customer_segmentation_def)
  have empty: "customer_segmentation [] = Inl TypeError" "churn_summary [] = Inr []"
    by (simp_all add: customer_segmentation_def churn_summary_def)
  have mem: "df \<noteq> [] \<longrightarrow>
      (\<exists>rows. customer_segmentation df = Inr rows \<and>
         (\<forall>row \<in> set rows.
            0 < customer_count row \<and>
            customer_count row = length (get_group create_segments df (customer_segment row)) \<and>
            (length df < 2 ^ 53 \<longrightarrow> churn_rate row \<noteq> None)) \<and>
         set (map customer_segment rows) = create_segments ` set df \<and>
         distinct (map customer_segment rows))"
  proof
    assume ne: "df \<noteq> []"
    define rows where "rows = map (\<lambda>k. segment_aggregate k (get_group create_segments df k))
              (groupby_keys create_segments df)"
    have seg: "customer_segmentation df = Inr rows"
      using ne by (simp add: customer_segmentation_rows rows_def)
    have each: "\<forall>row \<in> set rows.
            0 < customer_count row \<and>
            customer_count row = length (get_group create_segments df (customer_segment row)) \<and>
            (length df < 2 ^ 53 \<longrightarrow> churn_rate row \<noteq> None)"
    proof
      fix row assume "row \<in> set rows"
      with seg obtain k where k: "k \<in> create_segments ` set df"
        and row: "row = segment_aggregate k (get_group create_segments df k)"
        using customer_segmentation_row by blast
      define g where "g = get_group create_segments df k"
      have pos: "0 < length g"
        unfolding g_def using k by (rule length_get_group_pos)
      have le: "length g \<le> length df" by (simp add: g_def get_group_def)
      have defined: "churn_rate_column (length (filter (\<lambda>r. Churn r = ''Yes'') g)) (length g) \<noteq> None"
        if "length df < 2 ^ 53"
        using churn_rate_column_props(1) [of "length (filter (\<lambda>r. Churn r = ''Yes'') g)" "length g"]
          pos le that by simp
      show "0 < customer_count row \<and>
            customer_count row = length (get_group create_segments df (customer_segment row)) \<and>
            (length df < 2 ^ 53 \<longrightarrow> churn_rate row \<noteq> None)"
        using pos defined by (simp add: row segment_aggregate_fields g_def)
    qed
    have keys: "set (map customer_segment rows) = create_segments ` set df"
      "distinct (map customer_segment rows)"
      by (simp_all only: customer_segmentation_keys [OF seg] set_groupby_keys distinct_groupby_keys)
    from seg each keys show "\<exists>rows. customer_segmentation df = Inr rows \<and>
         (\<forall>row \<in> set rows.
            0 < customer_count row \<and>
            customer_count row = length (get_group create_segments df (customer_segment row)) \<and>
            (length df < 2 ^ 53 \<longrightarrow> churn_rate row \<noteq> None)) \<and>
         set (map customer_segment rows) = create_segments ` set df \<and>
         distinct (map customer_segment rows)"
      by (intro exI [of _ rows] conjI)
  qed
  obtain rows where rows: "churn_summary df = Inr rows"
    and all2: "list_all2 (\<lambda>k row. summary_group row = k \<and>
            (summary_customer_count row = length (get_group churn_summary_key df k) \<and>
            summary_churned_customers row =
              length (filter (\<lambda>r. Churn r = ''Yes'') (get_group churn_summary_key df k)) \<and>
            churn_rate_percent row =
              sql_round 2 (real (length (filter (\<lambda>r. Churn r = ''Yes'') (get_group churn_summary_key df k))) * 100
                 / real (length (get_group churn_summary_key df k)))))
       (remdups (map churn_summary_key df)) rows"
    using churn_summary_rows by blast
  have skeys: "map summary_group rows = remdups (map churn_summary_key df)"
    using all2 by (rule list_all2_key_map)
  have smem: "\<forall>row \<in> set rows.
         0 < summary_customer_count row \<and>
         summary_customer_count row = length (get_group churn_summary_key df (summary_group row))"
  proof
    fix row assume r: "row \<in> set rows"
    from list_all2_rows [OF all2 r] obtain k where k: "k \<in> set (remdups (map churn_summary_key df))"
      and q: "summary_group row = k"
        "summary_customer_count row = length (get_group churn_summary_key df k)"
      by blast
    have "0 < length (get_group churn_summary_key df k)"
      using k by (simp add: get_group_nonempty)
    then show "0 < summary_customer_count row \<and>
         summary_customer_count row = length (get_group churn_summary_key df (summary_group row))"
      using q by simp
  qed
  have "set (map summary_group rows) = churn_summary_key ` set df"
    "distinct (map summary_group rows)"
    by (simp_all add: skeys)
  with rows smem have sql: "\<exists>rows. churn_summary df = Inr rows \<and>
      (\<forall>row \<in> set rows.
         0 < summary_customer_count row \<and>
         summary_customer_count row = length (get_group churn_summary_key df (summary_group row))) \<and>
      set (map summary_group rows) = churn_summary_key ` set df \<and>
      distinct (map summary_group rows)"
    by (intro exI [of _ rows] conjI)
  have p3: "df \<noteq> [] \<longrightarrow>
      (\<exists>rows. tenure_churn Pandas3 df = Some rows \<and>
         (\<forall>row \<in> set rows.
            (\<exists>r \<in> set df. cut [0, 12, 24, 36, 72] (tenure r) = Some (tenure_bin row)) \<and>
            (length df < 2 ^ 53 \<longrightarrow> tenure_churn_rate row \<noteq> None)))"
  proof
    assume "df \<noteq> []"
    then obtain rows where t: "tenure_churn Pandas3 df = Some rows"
      using tenure_churn_returns by blast
    have "\<forall>row \<in> set rows.
            (\<exists>r \<in> set df. cut [0, 12, 24, 36, 72] (tenure r) = Some (tenure_bin row)) \<and>
            (length df < 2 ^ 53 \<longrightarrow> tenure_churn_rate row \<noteq> None)"
      using tenure_churn_observed [OF t] by blast
    with t show "\<exists>rows. tenure_churn Pandas3 df = Some rows \<and>
         (\<forall>row \<in> set rows.
            (\<exists>r \<in> set df. cut [0, 12, 24, 36, 72] (tenure r) = Some (tenure_bin row)) \<and>
            (length df < 2 ^ 53 \<longrightarrow> tenure_churn_rate row \<noteq> None))"
      by (intro exI [of _ rows] conjI)
  qed
  have p2: "df \<noteq> [] \<longrightarrow>
      (\<exists>rows. tenure_churn Pandas2 df = Some rows \<and>
         map tenure_bin rows = intervals [0, 12, 24, 36, 72] \<and>
         (\<forall>row \<in> set rows.
            (\<forall>r \<in> set df. cut [0, 12, 24, 36, 72] (tenure r) \<noteq> Some (tenure_bin row)) \<longrightarrow>
            tenure_churn_rate row = None))"
  proof
    assume "df \<noteq> []"
    then obtain rows where t: "tenure_churn Pandas2 df = Some rows"
      using tenure_churn_returns by blast
    have bins: "map tenure_bin rows = intervals [0, 12, 24, 36, 72]"
      using t by (rule tenure_churn_bins)
    have "\<forall>row \<in> set rows.
            (\<forall>r \<in> set df. cut [0, 12, 24, 36, 72] (tenure r) \<noteq> Some (tenure_bin row)) \<longrightarrow>
            tenure_churn_rate row = None"
      using tenure_churn_empty_bin [OF t] by blast
    with t bins show "\<exists>rows. tenure_churn Pandas2 df = Some rows \<and>
         map tenure_bin rows = intervals [0, 12, 24, 36, 72] \<and>
         (\<forall>row \<in> set rows.
            (\<forall>r \<in> set df. cut [0, 12, 24, 36, 72] (tenure r) \<noteq> Some (tenure_bin row)) \<longrightarrow>
            tenure_churn_rate row = None)"
      by (intro exI [of _ rows] conjI)
  qed
  from gen noerr empty(1) mem sql empty(2) p3 p2 show ?thesis by (intro conjI)
qed

theorem ratio_groups_nonempty_witness:
  "(\<exists>rows. customer_segmentation
      [customer0\<lparr>tenure := 5, Churn := ''Yes''\<rparr>, customer0\<lparr>tenure := 7\<rparr>,
       customer0\<lparr>Contract := ''Two year'', tenure := 40, MonthlyCharges := 80\<rparr>] = Inr rows \<and>
      map customer_segment rows = [''High Risk - New Month-to-Month'', ''Low Risk - Long-term''] \<and>
      map customer_count rows = [2, 1] \<and>
      (\<forall>row \<in> set rows. 0 < customer_count row \<and> churn_rate row \<noteq> None)) \<and>
   (\<exists>rows. churn_summary
      [customer0\<lparr>tenure := 5, Churn := ''Yes''\<rparr>, customer0\<lparr>tenure := 7\<rparr>,
       customer0\<lparr>Contract := ''Two year'', tenure := 40, MonthlyCharges := 80\<rparr>] = Inr rows \<and>
      map summary_customer_count rows = [2, 1] \<and>
      (\<forall>row \<in> set rows. 0 < summary_customer_count row)) \<and>
   tenure_churn Pandas3
      [customer0\<lparr>tenure := 5, Churn := ''Yes''\<rparr>, customer0\<lparr>tenure := 7\<rparr>,
       customer0\<lparr>Contract := ''Two year'', tenure := 40, MonthlyCharges := 80\<rparr>] =
     Some [\<lparr>tenure_bin = (0, 12), tenure_churn_rate = Some 50\<rparr>,
           \<lparr>tenure_bin = (36, 72), tenure_churn_rate = Some 0\<rparr>] \<and>
   (\<exists>rows. tenure_churn Pandas3
      [customer0\<lparr>tenure := 5, Churn := ''Yes''\<rparr>, customer0\<lparr>tenure := 7\<rparr>,
       customer0\<lparr>Contract := ''Two year'', tenure := 40, MonthlyCharges := 80\<rparr>] = Some rows \<and>
      (\<forall>row \<in> set rows. tenure_churn_rate row \<noteq> None))"
proof -
  let ?W = "[customer0\<lparr>tenure := 5, Churn := ''Yes''\<rparr>, customer0\<lparr>tenure := 7\<rparr>,
       customer0\<lparr>Contract := ''Two year'', tenure := 40, MonthlyCharges := 80\<rparr>]"
  have seg: "customer_segmentation ?W =
     Inr [\<lparr>customer_segment = ''High Risk - New Month-to-Month'', customer_count = 2,
        avg_monthly_charges = Some 50, avg_tenure = Some 6, avg_total_charges = Some 0,
        churned_customers = 1, churn_rate = Some 50\<rparr>,
      \<lparr>customer_segment = ''Low Risk - Long-term'', customer_count = 1,
        avg_monthly_charges = Some 80, avg_tenure = Some 40, avg_total_charges = Some 0,
        churned_customers = 0, churn_rate = Some 0\<rparr>]"
    by code_simp
  have summ: "churn_summary ?W =
     Inr [\<lparr>summary_group = (''Month-to-month'', ''DSL'', ''Non-Senior'', ''Single''),
            summary_customer_count = 2, summary_avg_monthly_charges = 50,
            summary_avg_tenure_months = 6, summary_churned_customers = 1,
            churn_rate_percent = 50\<rparr>,
          \<lparr>summary_group = (''Two year'', ''DSL'', ''Non-Senior'', ''Single''),
            summary_customer_count = 1, summary_avg_monthly_charges = 80,
            summary_avg_tenure_months = 40, summary_churned_customers = 0,
            churn_rate_percent = 0\<rparr>]"
    by code_simp
  have bins: "tenure_churn Pandas3 ?W =
     Some [\<lparr>tenure_bin = (0, 12), tenure_churn_rate = Some 50\<rparr>,
           \<lparr>tenure_bin = (36, 72), tenure_churn_rate = Some 0\<rparr>]"
    by code_simp
  have len: "length ?W < 2 ^ 53" and ne: "?W \<noteq> []" by simp_all
  note inst = ratio_groups_nonempty [of create_segments ?W]
  note c4 = inst [THEN conjunct2, THEN conjunct2, THEN conjunct2, THEN conjunct1]
  note c5 = inst [THEN conjunct2, THEN conjunct2, THEN conjunct2, THEN conjunct2, THEN conjunct1]
  note c7 = inst [THEN conjunct2, THEN conjunct2, THEN conjunct2, THEN conjunct2, THEN conjunct2,
                  THEN conjunct2, THEN conjunct1]
  from c4 ne obtain rows where r: "customer_segmentation ?W = Inr rows"
    "\<forall>row \<in> set rows. 0 < customer_count row \<and>
        customer_count row = length (get_group create_segments ?W (customer_segment row)) \<and>
        (length ?W < 2 ^ 53 \<longrightarrow> churn_rate row \<noteq> None)"
    by blast
  from r(2) len have r2: "\<forall>row \<in> set rows. 0 < customer_count row \<and> churn_rate row \<noteq> None"
    by blast
  from r(1) seg have r3: "map customer_segment rows =
      [''High Risk - New Month-to-Month'', ''Low Risk - Long-term'']"
    "map customer_count rows = [2, 1]"
    by auto
  from r(1) r3 r2 have a: "\<exists>rows. customer_segmentation ?W = Inr rows \<and>
      map customer_segment rows = [''High Risk - New Month-to-Month'', ''Low Risk - Long-term''] \<and>
      map customer_count rows = [2, 1] \<and>
      (\<forall>row \<in> set rows. 0 < customer_count row \<and> churn_rate row \<noteq> None)"
    by (intro exI [of _ rows] conjI)
  from c5 obtain srows where s: "churn_summary ?W = Inr srows"
    "\<forall>row \<in> set srows. 0 < summary_customer_count row \<and>
       summary_customer_count row = length (get_group churn_summary_key ?W (summary_group row))"
    by blast
  from s(2) have s2: "\<forall>row \<in> set srows. 0 < summary_customer_count row" by blast
  from s(1) summ have s3: "map summary_customer_count srows = [2, 1]" by auto
  from s(1) s3 s2 have b: "\<exists>rows. churn_summary ?W = Inr rows \<and>
      map summary_customer_count rows = [2, 1] \<and>
      (\<forall>row \<in> set rows. 0 < summary_customer_count row)"
    by (intro exI [of _ srows] conjI)
  from c7 ne obtain trows where t: "tenure_churn Pandas3 ?W = Some trows"
    "\<forall>row \<in> set trows.
       (\<exists>r \<in> set ?W. cut [0, 12, 24, 36, 72] (tenure r) = Some (tenure_bin row)) \<and>
       (length ?W < 2 ^ 53 \<longrightarrow> tenure_churn_rate row \<noteq> None)"
    by blast
  from t(2) len have t2: "\<forall>row \<in> set trows. tenure_churn_rate row \<noteq> None" by blast
  from t(1) t2 have c: "\<exists>rows. tenure_churn Pandas3 ?W = Some rows \<and>
      (\<forall>row \<in> set rows. tenure_churn_rate row \<noteq> None)"
    by (intro exI [of _ trows] conjI)
  from a b bins c show ?thesis by (intro conjI)
qed

text \<open>A frame whose only record has tenure 5, before pandas 3: the bin from 12 to 24
  has no record and is a row of the table all the same, with NaN as its ratio.\<close>

theorem empty_tenure_bin_counterexample:
  "tenure_churn Pandas2 [customer0\<lparr>tenure := 5, Churn := ''Yes''\<rparr>] =
     Some [\<lparr>tenure_bin = (0, 12), tenure_churn_rate = Some 100\<rparr>,
           \<lparr>tenure_bin = (12, 24), tenure_churn_rate = None\<rparr>,
           \<lparr>tenure_bin = (24, 36), tenure_churn_rate = None\<rparr>,
           \<lparr>tenure_bin = (36, 72), tenure_churn_rate = None\<rparr>] \<and>
   filter (\<lambda>r. cut [0, 12, 24, 36, 72] (tenure r) = Some (12, 24))
     [customer0\<lparr>tenure := 5, Churn := ''Yes''\<rparr>] = []"
proof -
  have "tenure_churn Pandas2 [customer0\<lparr>tenure := 5, Churn := ''Yes''\<rparr>] =
     Some [\<lparr>tenure_bin = (0, 12), tenure_churn_rate = Some 100\<rparr>,
           \<lparr>tenure_bin = (12, 24), tenure_churn_rate = None\<rparr>,
           \<lparr>tenure_bin = (24, 36), tenure_churn_rate = None\<rparr>,
           \<lparr>tenure_bin = (36, 72), tenure_churn_rate = None\<rparr>]"
    by code_simp
  moreover have "filter (\<lambda>r. cut [0, 12, 24, 36, 72] (tenure r) = Some (12, 24))
     [customer0\<lparr>tenure := 5, Churn := ''Yes''\<rparr>] = []"
    by code_simp
  ultimately show ?thesis by (rule conjI)
qed

text \<open>
  C7. Whenever \<open>customer_segmentation\<close> returns its table (it does for every frame with
  a record), the churned counts of the rows add up to the number of churned records of
  the frame, and the customer counts add up to the number of records: every record is
  counted in exactly one segment. The same holds of the grouped table as such.
\<close>

theorem segment_churned_counts_sum:
  "(\<forall>rows. customer_segmentation df = Inr rows \<longrightarrow>
      sum_list (map churned_customers rows) = length (filter (\<lambda>r. Churn r = ''Yes'') df) \<and>
      sum_list (map customer_count rows) = length df) \<and>
   (df \<noteq> [] \<longrightarrow> (\<exists>rows. customer_segmentation df = Inr rows)) \<and>
   sum_list (map churned_customers
       (map (\<lambda>k. segment_aggregate k (get_group create_segments df k))
          (groupby_keys create_segments df))) =
     length (filter (\<lambda>r. Churn r = ''Yes'') df) \<and>
   sum_list (map customer_count
       (map (\<lambda>k. segment_aggregate k (get_group create_segments df k))
          (groupby_keys create_segments df))) = length df"
proof -
  have d: "distinct (groupby_keys create_segments df)"
    and c: "create_segments ` set df \<subseteq> set (groupby_keys create_segments df)"
    by (simp_all add: distinct_groupby_keys set_groupby_keys)
  have "sum_list (map churned_customers
       (map (\<lambda>k. segment_aggregate k (get_group create_segments df k))
          (groupby_keys create_segments df))) =
      (\<Sum>k\<leftarrow>groupby_keys create_segments df.
          length (filter (\<lambda>r. Churn r = ''Yes'') (get_group create_segments df k)))"
    by (simp add: segment_aggregate_fields comp_def)
  also have "\<dots> = length (filter (\<lambda>r. Churn r = ''Yes'') df)"
    using d c by (rule groups_partition_count)
  finally have churned: "sum_list (map churned_customers
       (map (\<lambda>k. segment_aggregate k (get_group create_segments df k))
          (groupby_keys create_segments df))) =
     length (filter (\<lambda>r. Churn r = ''Yes'') df)" .
  have "sum_list (map customer_count
       (map (\<lambda>k. segment_aggregate k (get_group create_segments df k))
          (groupby_keys create_segments df))) =
      (\<Sum>k\<leftarrow>groupby_keys create_segments df.
          length (filter (\<lambda>r. True) (get_group create_segments df k)))"
    by (simp add: segment_aggregate_fields comp_def)
  also have "\<dots> = length (filter (\<lambda>r. True) df)"
    using d c by (rule groups_partition_count)
  finally have counts: "sum_list (map customer_count
       (map (\<lambda>k. segment_aggregate k (get_group create_segments df k))
          (groupby_keys create_segments df))) = length df"
    by simp
  have produced: "\<forall>rows. customer_segmentation df = Inr rows \<longrightarrow>
      sum_list (map churned_customers rows) = length (filter (\<lambda>r. Churn r = ''Yes'') df) \<and>
      sum_list (map customer_count rows) = length df"
    using churned counts by (simp only: customer_segmentation_rows) blast
  have returns: "df \<noteq> [] \<longrightarrow> (\<exists>rows. customer_segmentation df = Inr rows)"
    by (simp add: customer_segmentation_def)
  from produced returns churned counts show ?thesis by (intro conjI)
qed

theorem segment_churned_counts_sum_witness:
  "\<exists>rows. customer_segmentation
     [customer0\<lparr>Contract := ''Month-to-month'', tenure := 5, MonthlyCharges := 50, Churn := ''Yes''\<rparr>,
      customer0\<lparr>Contract := ''Two year'', tenure := 40, MonthlyCharges := 80\<rparr>,
      customer0\<lparr>Contract := ''One year'', tenure := 3, MonthlyCharges := 60, Churn := ''Yes''\<rparr>] = Inr rows \<and>
     sum_list (map churned_customers rows) = 2 \<and> sum_list (map customer_count rows) = 3"
proof -
  let ?W = "[customer0\<lparr>Contract := ''Month-to-month'', tenure := 5, MonthlyCharges := 50, Churn := ''Yes''\<rparr>,
      customer0\<lparr>Contract := ''Two year'', tenure := 40, MonthlyCharges := 80\<rparr>,
      customer0\<lparr>Contract := ''One year'', tenure := 3, MonthlyCharges := 60, Churn := ''Yes''\<rparr>]"
  note inst = segment_churned_counts_sum [of ?W]
  have ne: "?W \<noteq> []" by simp
  with inst obtain rows where r: "customer_segmentation ?W = Inr rows" by blast
  with inst have "sum_list (map churned_customers rows) = length (filter (\<lambda>r. Churn r = ''Yes'') ?W)"
    "sum_list (map customer_count rows) = length ?W"
    by blast+
  then have "sum_list (map churned_customers rows) = 2" "sum_list (map customer_count rows) = 3"
    by (simp_all add: customer0_def)
  with r show ?thesis by blast
qed

section \<open>Cleaner: properties\<close>

text \<open>
  C8. From pandas 3 on the cleaner does not give 0 to a record whose total charge is
  not a number: for the placeholder of the data set (a space), for the empty string and
  for a missing value, \<open>load_data\<close> and \<open>clean_data\<close> leave NaN in the frame, because the
  in-place fill acts on a copy of the column. Before pandas 3 the same records get 0 (see
  \<open>load_data_pandas2\<close>). No record is dropped either way.
\<close>

theorem load_data_fill_lost:
  "map TotalCharges (load_data Pandas3 parse
     [customer0\<lparr>TotalCharges := Str '' ''\<rparr>, customer0\<lparr>TotalCharges := Str ''''\<rparr>,
      customer0\<lparr>TotalCharges := NaN\<rparr>, customer0\<lparr>TotalCharges := Num (119 / 4)\<rparr>])
     = [NaN, NaN, NaN, Num (119 / 4)] \<and>
   map TotalCharges (clean_data Pandas3 parse
     [customer0\<lparr>TotalCharges := Str '' ''\<rparr>, customer0\<lparr>TotalCharges := Str ''''\<rparr>,
      customer0\<lparr>TotalCharges := NaN\<rparr>, customer0\<lparr>TotalCharges := Num (119 / 4)\<rparr>])
     = [NaN, NaN, NaN, Num (119 / 4)] \<and>
   map TotalCharges (load_data Pandas2 parse
     [customer0\<lparr>TotalCharges := Str '' ''\<rparr>, customer0\<lparr>TotalCharges := Str ''''\<rparr>,
      customer0\<lparr>TotalCharges := NaN\<rparr>, customer0\<lparr>TotalCharges := Num (119 / 4)\<rparr>])
     = [Num 0, Num 0, Num 0, Num (119 / 4)] \<and>
   map TotalCharges (clean_data Pandas2 parse
     [customer0\<lparr>TotalCharges := Str '' ''\<rparr>, customer0\<lparr>TotalCharges := Str ''''\<rparr>,
      customer0\<lparr>TotalCharges := NaN\<rparr>, customer0\<lparr>TotalCharges := Num (119 / 4)\<rparr>])
     = [Num 0, Num 0, Num 0, Num (119 / 4)]"
  by (simp add: clean_data_load_data load_data_map to_numeric_coerce_def fillna_def)

text \<open>
  C9. Cleaning is idempotent: a second pass over a cleaned frame returns the same frame,
  hence the same total charges, for \<open>load_data\<close> and for \<open>clean_data\<close>, before and
  from pandas 3.
\<close>

theorem load_data_idempotent:
  "load_data version parse (load_data version parse df) = load_data version parse df \<and>
   clean_data version parse (clean_data version parse df) = clean_data version parse df \<and>
   map TotalCharges (load_data version parse (load_data version parse df)) =
     map TotalCharges (load_data version parse df)"
  by (cases version)
     (simp_all add: load_data_map clean_data_load_data clean_cell_idem to_numeric_coerce_idem)

theorem load_data_idempotent_witness:
  "map TotalCharges
     (load_data Pandas2 (\<lambda>s. if s = ''29.75'' then Some (119 / 4) else None)
       (load_data Pandas2 (\<lambda>s. if s = ''29.75'' then Some (119 / 4) else None)
         [customer0\<lparr>TotalCharges := Str '' ''\<rparr>, customer0\<lparr>TotalCharges := Str ''29.75''\<rparr>]))
     = [Num 0, Num (119 / 4)] \<and>
   map TotalCharges
     (load_data Pandas3 (\<lambda>s. if s = ''29.75'' then Some (119 / 4) else None)
       (load_data Pandas3 (\<lambda>s. if s = ''29.75'' then Some (119 / 4) else None)
         [customer0\<lparr>TotalCharges := Str '' ''\<rparr>, customer0\<lparr>TotalCharges := Str ''29.75''\<rparr>]))
     = [NaN, Num (119 / 4)]"
  using load_data_idempotent
     [of Pandas2 "\<lambda>s. if s = ''29.75'' then Some (119 / 4) else None"
         "[customer0\<lparr>TotalCharges := Str '' ''\<rparr>, customer0\<lparr>TotalCharges := Str ''29.75''\<rparr>]"]
    load_data_idempotent
     [of Pandas3 "\<lambda>s. if s = ''29.75'' then Some (119 / 4) else None"
         "[customer0\<lparr>TotalCharges := Str '' ''\<rparr>, customer0\<lparr>TotalCharges := Str ''29.75''\<rparr>]"]
  by (simp add: load_data_map to_numeric_coerce_def fillna_def)

section \<open>Churn risk against segment\<close>

text \<open>
  C10. On every month-to-month record with tenure at least 24 the view
  \<open>customer_segments\<close> gives \<open>churn_risk\<close> 'Low Risk' and \<open>customer_segment\<close>
  'Medium Risk - Established Month-to-Month': the coarse label names a lower risk class
  than the risk class heading the segment label.
\<close>

theorem churn_risk_diverges_from_segment:
  "Contract r = ''Month-to-month'' \<Longrightarrow> tenure r \<ge> 24 \<Longrightarrow>
     sql_churn_risk r = ''Low Risk'' \<and>
     sql_customer_segment r = ''Medium Risk - Established Month-to-Month'' \<and>
     take 11 (sql_customer_segment r) = ''Medium Risk'' \<and>
     sql_churn_risk r \<noteq> take 11 (sql_customer_segment r)"
  by (simp add: sql_churn_risk_def sql_customer_segment_def)

theorem churn_risk_diverges_from_segment_witness:
  "sql_churn_risk (customer0\<lparr>Contract := ''Month-to-month'', tenure := 24\<rparr>) = ''Low Risk'' \<and>
   sql_customer_segment (customer0\<lparr>Contract := ''Month-to-month'', tenure := 24\<rparr>)
     = ''Medium Risk - Established Month-to-Month''"
  using churn_risk_diverges_from_segment
          [of "customer0\<lparr>Contract := ''Month-to-month'', tenure := 24\<rparr>"]
  by (simp add: customer0_def)

end
